theory Spec2Isabelle
  imports Complex_Main
begin

section \<open>Structural element base: residual routines, dispatch and frame transformation\<close>

text \<open>
  A shallow embedding of \<^verbatim>\<open>src/elasticity/structural_element_base.cpp\<close>.
  \<^verbatim>\<open>Real\<close> is \<^typ>\<open>real\<close> (exact arithmetic, rounding is not modelled) and the template
  parameter \<^verbatim>\<open>ValType\<close> is a type variable of class \<open>real_vector\<close> (\<open>real_algebra_1\<close> where
  matrices are multiplied), which both \<^typ>\<open>real\<close> and \<^typ>\<open>complex\<close> instantiate, so each
  templated routine is one definition. Every fatal exit of the source
  (\<^verbatim>\<open>libmesh_error()\<close>, a failed and enabled \<^verbatim>\<open>libmesh_assert\<close>, an index outside a container, an
  operation on operands of different sizes) is a value \<open>Inl err\<close>.
\<close>

subsection \<open>Errors\<close>

datatype error = LibmeshError | AssertionFailed | IndexOutOfRange | SizeMismatch

definition bind_res :: "error + 'a \<Rightarrow> ('a \<Rightarrow> error + 'b) \<Rightarrow> error + 'b" where
  "bind_res r k = (case r of Inl e \<Rightarrow> Inl e | Inr x \<Rightarrow> k x)"

text \<open>
  \<^verbatim>\<open>libmesh_assert(cond)\<close> and \<^verbatim>\<open>libmesh_assert_equal_to(a, b)\<close> are macros of libMesh, declared
  outside the given sources. A build with assertions enabled stops when the condition
  fails; a build that defines \<^verbatim>\<open>NDEBUG\<close> compiles the macro to nothing and control goes on.
  The first argument says which build it is. \<^verbatim>\<open>libmesh_error()\<close> stops in every build.
\<close>

definition libmesh_assert :: "bool \<Rightarrow> bool \<Rightarrow> error + unit" where
  "libmesh_assert enabled cond = (if enabled \<and> \<not> cond then Inl AssertionFailed else Inr ())"

text \<open>Reading \<^verbatim>\<open>xs[i]\<close> from a \<^verbatim>\<open>std::vector\<close> or an Eigen vector.\<close>

definition nth_checked :: "'a list \<Rightarrow> nat \<Rightarrow> error + 'a" where
  "nth_checked xs i = (if i < length xs then Inr (xs ! i) else Inl IndexOutOfRange)"

text \<open>A \<^verbatim>\<open>for\<close> loop whose body may fail: the first failure ends the loop.\<close>

fun for_each :: "('x \<Rightarrow> 's \<Rightarrow> error + 's) \<Rightarrow> 'x list \<Rightarrow> 's \<Rightarrow> error + 's" where
  "for_each body [] s = Inr s"
| "for_each body (x # xs) s = bind_res (body x s) (for_each body xs)"

subsection \<open>Dense vectors and matrices\<close>

text \<open>
  \<^verbatim>\<open>RealVectorX\<close> and \<^verbatim>\<open>ComplexVectorX\<close> are lists. A dense matrix is its two dimensions and
  its coefficients. A vector or matrix constructed with a size starts at zero, which the
  accumulations \<^verbatim>\<open>local_f += ...\<close> of the source rely on.
\<close>

record 'a matrix =
  rows :: nat
  cols :: nat
  coeff :: "nat \<Rightarrow> nat \<Rightarrow> 'a"

definition zero_vec :: "nat \<Rightarrow> ('a::zero) list" where
  "zero_vec n = replicate n 0"

definition zero_mat :: "nat \<Rightarrow> nat \<Rightarrow> ('a::zero) matrix" where
  "zero_mat r c = \<lparr>rows = r, cols = c, coeff = (\<lambda>_ _. 0)\<rparr>"

text \<open>\<^verbatim>\<open>m(i, j) = v\<close>, used where the source's indices lie inside the matrix.\<close>

definition mat_set :: "'a matrix \<Rightarrow> nat \<Rightarrow> nat \<Rightarrow> 'a \<Rightarrow> 'a matrix" where
  "mat_set m i j v = m\<lparr>coeff := (coeff m)(i := (coeff m i)(j := v))\<rparr>"

definition vec_add :: "('a::plus) list \<Rightarrow> 'a list \<Rightarrow> error + 'a list" where
  "vec_add u v =
     (if length u \<noteq> length v then Inl SizeMismatch
      else Inr (map (\<lambda>(x, y). x + y) (zip u v)))"

definition vec_scale :: "real \<Rightarrow> ('a::real_vector) list \<Rightarrow> 'a list" where
  "vec_scale a v = map (scaleR a) v"

definition mat_add :: "('a::plus) matrix \<Rightarrow> 'a matrix \<Rightarrow> error + 'a matrix" where
  "mat_add a b =
     (if rows a \<noteq> rows b \<or> cols a \<noteq> cols b then Inl SizeMismatch
      else Inr \<lparr>rows = rows a, cols = cols a, coeff = (\<lambda>i j. coeff a i j + coeff b i j)\<rparr>)"

definition mat_scale :: "real \<Rightarrow> ('a::real_vector) matrix \<Rightarrow> 'a matrix" where
  "mat_scale s a = \<lparr>rows = rows a, cols = cols a, coeff = (\<lambda>i j. scaleR s (coeff a i j))\<rparr>"

definition mat_transpose :: "'a matrix \<Rightarrow> 'a matrix" where
  "mat_transpose a = \<lparr>rows = cols a, cols = rows a, coeff = (\<lambda>i j. coeff a j i)\<rparr>"

definition mat_mult :: "('a::semiring_0) matrix \<Rightarrow> 'a matrix \<Rightarrow> error + 'a matrix" where
  "mat_mult a b =
     (if cols a \<noteq> rows b then Inl SizeMismatch
      else Inr \<lparr>rows = rows a, cols = cols b,
                coeff = (\<lambda>i j. \<Sum>k<cols a. coeff a i k * coeff b k j)\<rparr>)"

definition mat_of_real :: "real matrix \<Rightarrow> ('a::real_algebra_1) matrix" where
  "mat_of_real a = \<lparr>rows = rows a, cols = cols a, coeff = (\<lambda>i j. of_real (coeff a i j))\<rparr>"

text \<open>A real matrix times a vector of \<^verbatim>\<open>Real\<close> or \<^verbatim>\<open>Complex\<close> coefficients.\<close>

definition mat_vec_mult :: "real matrix \<Rightarrow> ('a::real_vector) list \<Rightarrow> error + 'a list" where
  "mat_vec_mult m v =
     (if cols m \<noteq> length v then Inl SizeMismatch
      else Inr (map (\<lambda>i. \<Sum>j<cols m. scaleR (coeff m i j) (v ! j)) [0..<rows m]))"

subsection \<open>Points, finite-element data, boundary conditions, the element\<close>

type_synonym point = "real \<times> real \<times> real"

definition point_coord :: "point \<Rightarrow> nat \<Rightarrow> real" where
  "point_coord p i = (case p of (x, y, z) \<Rightarrow> if i = 0 then x else if i = 1 then y else z)"

text \<open>
  What an initialised \<^verbatim>\<open>libMesh::FEBase\<close> hands out: \<^verbatim>\<open>get_JxW()\<close>, \<^verbatim>\<open>get_xyz()\<close>,
  \<^verbatim>\<open>get_phi()\<close> (indexed \<^verbatim>\<open>phi[i_nd][qp]\<close>), \<^verbatim>\<open>get_normals()\<close> and \<^verbatim>\<open>n_shape_functions()\<close>.
\<close>

record fe_data =
  get_JxW :: "real list"
  get_xyz :: "point list"
  get_phi :: "real list list"
  get_normals :: "point list"
  n_shape_functions :: nat

text \<open>
  The type tag of a boundary condition. The enumeration is declared outside the given
  sources; the four tags the dispatch switches name are constructors, every other tag is
  \<open>OTHER_TYPE k\<close>.
\<close>

datatype BoundaryConditionType =
  SURFACE_PRESSURE | TEMPERATURE | SMALL_DISTURBANCE_MOTION | DIRICHLET | OTHER_TYPE nat

text \<open>
  A boundary condition: its tag and its named field functions (of position and time), each
  present or not. \<^verbatim>\<open>bc.get<...>(name)\<close> on a name that is not registered is fatal.
\<close>

record 'a BoundaryCondition =
  bc_type :: BoundaryConditionType
  pressure :: "(point \<Rightarrow> real \<Rightarrow> real) option"
  dpressure :: "(point \<Rightarrow> real \<Rightarrow> 'a) option"
  dnormal :: "(point \<Rightarrow> real \<Rightarrow> 'a list) option"

definition get_field :: "'f option \<Rightarrow> error + 'f" where
  "get_field fn = (case fn of None \<Rightarrow> Inl LibmeshError | Some g \<Rightarrow> Inr g)"

text \<open>
  The state of a \<^verbatim>\<open>StructuralElementBase\<close> and of the collaborators it reads:
  the geometric element (\<^verbatim>\<open>_elem\<close>: dimension, boundary ids of each side, subdomain id),
  the element quadrature data \<^verbatim>\<open>_fe\<close>, the side quadrature data built by
  \<^verbatim>\<open>_get_side_fe_and_qrule\<close> for a side of the local element, the local element
  (\<^verbatim>\<open>T_matrix()\<close>, read at indices below 3, and \<^verbatim>\<open>global_coordinates_location\<close>), the
  system's \<^verbatim>\<open>n_vars()\<close>, the current \<^verbatim>\<open>_time\<close>, the property card (\<^verbatim>\<open>if_diagonal_mass_matrix()\<close>,
  \<^verbatim>\<open>inertia_matrix\<close>), the flag \<^verbatim>\<open>follower_forces\<close>, the cached local vectors, the
  global vectors kept by \<^verbatim>\<open>ElementBase\<close>, and the virtual \<^verbatim>\<open>thermal_residual\<close> that a
  derived class supplies. The field \<open>assertions_enabled\<close> is the build the element runs in:
  false when \<^verbatim>\<open>NDEBUG\<close> is defined.
\<close>

record 'a StructuralElement =
  assertions_enabled :: bool
  elem_dim :: nat
  side_boundary_ids :: "nat list list"
  subdomain_id :: nat
  fe :: fe_data
  side_fe :: "nat \<Rightarrow> fe_data"
  T_matrix :: "nat \<Rightarrow> nat \<Rightarrow> real"
  global_coordinates_location :: "point \<Rightarrow> point"
  time :: real
  follower_forces :: bool
  n_vars :: nat
  if_diagonal_mass_matrix :: bool
  inertia_matrix :: "point \<Rightarrow> real \<Rightarrow> real matrix"
  local_sol :: "real list"
  local_vel :: "real list"
  local_accel :: "real list"
  local_base_sol :: "real list"
  sol :: "real list"
  vel :: "real list"
  base_sol :: "real list"
  sol_sens :: "real list"
  vel_sens :: "real list"
  base_sol_sens :: "real list"
  thermal_residual ::
    "bool \<Rightarrow> real list \<Rightarrow> real matrix \<Rightarrow> 'a BoundaryCondition \<Rightarrow>
       error + (bool \<times> real list \<times> real matrix)"

subsection \<open>Transformation between the local and the global frame\<close>

text \<open>
  The three transformation routines fill the same \<open>6n \<times> 6n\<close> matrix by the same triple loop:
  \<^verbatim>\<open>mat(j*n_dofs+i, k*n_dofs+i) = Tmat(j,k)\<close> and
  \<^verbatim>\<open>mat((j+3)*n_dofs+i, (k+3)*n_dofs+i) = Tmat(j,k)\<close>.
\<close>

definition T_assign ::
  "nat \<Rightarrow> (nat \<Rightarrow> nat \<Rightarrow> real) \<Rightarrow> nat \<Rightarrow> nat \<Rightarrow> nat \<Rightarrow> real matrix \<Rightarrow> real matrix" where
  "T_assign n Tmat i j k mat =
     mat_set (mat_set mat (j * n + i) (k * n + i) (Tmat j k))
             ((j + 3) * n + i) ((k + 3) * n + i) (Tmat j k)"

definition init_T_mat :: "nat \<Rightarrow> (nat \<Rightarrow> nat \<Rightarrow> real) \<Rightarrow> real matrix" where
  "init_T_mat n Tmat =
     fold (\<lambda>i. fold (\<lambda>j. fold (\<lambda>k. T_assign n Tmat i j k) [0..<3]) [0..<3]) [0..<n]
       (zero_mat (6 * n) (6 * n))"

text \<open>\<^verbatim>\<open>local_vec = mat.transpose() * global_vec\<close>, after the size assertion.\<close>

definition transform_vector_to_local_system ::
  "'a StructuralElement \<Rightarrow> ('v::real_vector) list \<Rightarrow> 'v list \<Rightarrow> error + 'v list" where
  "transform_vector_to_local_system e global_vec local_vec =
     bind_res (libmesh_assert (assertions_enabled e) (length local_vec = length global_vec)) (\<lambda>_.
       mat_vec_mult
         (mat_transpose (init_T_mat (n_shape_functions (fe e)) (T_matrix e))) global_vec)"

text \<open>\<^verbatim>\<open>global_vec = mat * local_vec\<close>, after the size assertion.\<close>

definition transform_vector_to_global_system ::
  "'a StructuralElement \<Rightarrow> ('v::real_vector) list \<Rightarrow> 'v list \<Rightarrow> error + 'v list" where
  "transform_vector_to_global_system e local_vec global_vec =
     bind_res (libmesh_assert (assertions_enabled e) (length local_vec = length global_vec)) (\<lambda>_.
       mat_vec_mult (init_T_mat (n_shape_functions (fe e)) (T_matrix e)) local_vec)"

text \<open>\<^verbatim>\<open>global_mat = mat * local_mat * mat.transpose()\<close>, after the three size assertions.\<close>

definition transform_matrix_to_global_system ::
  "'a StructuralElement \<Rightarrow> ('v::real_algebra_1) matrix \<Rightarrow> 'v matrix \<Rightarrow> error + 'v matrix" where
  "transform_matrix_to_global_system e local_mat global_mat =
     bind_res (libmesh_assert (assertions_enabled e) (rows local_mat = cols local_mat)) (\<lambda>_.
     bind_res (libmesh_assert (assertions_enabled e) (rows global_mat = cols global_mat)) (\<lambda>_.
     bind_res (libmesh_assert (assertions_enabled e) (rows local_mat = rows global_mat)) (\<lambda>_.
       let mat = mat_of_real (init_T_mat (n_shape_functions (fe e)) (T_matrix e))
       in bind_res (mat_mult mat local_mat) (\<lambda>ml. mat_mult ml (mat_transpose mat)))))"

subsection \<open>The shape-function operator\<close>

text \<open>
  Modelled from the spec: the class \<^verbatim>\<open>FEMOperatorMatrix\<close> of
  \<^verbatim>\<open>numerics/fem_operator_matrix.h\<close>, which is not among the given sources. After
  \<^verbatim>\<open>reinit(n, phi_vec)\<close> the operator is the \<open>n \<times> (n * n_phi)\<close> matrix \<open>B\<close> that interpolates
  \<open>n\<close> nodal variables with the shape values, \<open>B(i, i * n_phi + k) = phi_vec(k)\<close>, in the
  numbering of the degrees of freedom that the transformation routines use.
  \<^verbatim>\<open>vector_mult_transpose\<close> yields \<open>B\<^sup>T v\<close>, \<^verbatim>\<open>left_multiply\<close> yields \<open>A B\<close> and
  \<^verbatim>\<open>right_multiply_transpose\<close> yields \<open>B\<^sup>T A\<close>; an operand of the wrong size is an error.
\<close>

record FEMOperatorMatrix =
  n_interpolated_vars :: nat
  shape_functions :: "real list"

definition reinit :: "nat \<Rightarrow> real list \<Rightarrow> FEMOperatorMatrix" where
  "reinit n shape_func = \<lparr>n_interpolated_vars = n, shape_functions = shape_func\<rparr>"

definition vector_mult_transpose ::
  "FEMOperatorMatrix \<Rightarrow> ('v::real_vector) list \<Rightarrow> error + 'v list" where
  "vector_mult_transpose B v =
     (if length v \<noteq> n_interpolated_vars B then Inl SizeMismatch
      else Inr (concat (map (\<lambda>i. map (\<lambda>p. scaleR p (v ! i)) (shape_functions B))
                      [0..<n_interpolated_vars B])))"

definition left_multiply :: "FEMOperatorMatrix \<Rightarrow> real matrix \<Rightarrow> error + real matrix" where
  "left_multiply B A =
     (if cols A \<noteq> n_interpolated_vars B then Inl SizeMismatch
      else
       let n_phi = length (shape_functions B)
       in Inr \<lparr>rows = rows A, cols = n_interpolated_vars B * n_phi,
                coeff = (\<lambda>r c. coeff A r (c div n_phi) * shape_functions B ! (c mod n_phi))\<rparr>)"

definition right_multiply_transpose ::
  "FEMOperatorMatrix \<Rightarrow> real matrix \<Rightarrow> error + real matrix" where
  "right_multiply_transpose B A =
     (if rows A \<noteq> n_interpolated_vars B then Inl SizeMismatch
      else
       let n_phi = length (shape_functions B)
       in Inr \<lparr>rows = n_interpolated_vars B * n_phi, cols = cols A,
                coeff = (\<lambda>r c. shape_functions B ! (r mod n_phi) * coeff A (r div n_phi) c)\<rparr>)"

text \<open>
  The loop \<^verbatim>\<open>for (i_nd < n_phi) phi_vec(i_nd) = phi[i_nd][qp]\<close>. The vector \<open>phi_vec\<close>
  is the one the routine declared: writing past its size is an error.
\<close>

definition shape_values :: "real list \<Rightarrow> real list list \<Rightarrow> nat \<Rightarrow> error + real list" where
  "shape_values phi_vec phi qp =
     for_each (\<lambda>i_nd pv.
         bind_res (nth_checked (phi ! i_nd) qp) (\<lambda>x.
           if i_nd < length pv then Inr (pv[i_nd := x]) else Inl IndexOutOfRange))
       [0..<length phi] phi_vec"

subsection \<open>Setting the solution vectors\<close>

text \<open>
  Modelled from the spec: the setters of the base class \<^verbatim>\<open>ElementBase\<close>, which is not among
  the given sources, keep the vector they are given in the global frame (the solution
  state of the spec), the sensitivity vectors apart.
\<close>

definition ElementBase_set_solution ::
  "real list \<Rightarrow> bool \<Rightarrow> 'a StructuralElement \<Rightarrow> 'a StructuralElement" where
  "ElementBase_set_solution vec if_sens e =
     (if if_sens then e\<lparr>sol_sens := vec\<rparr> else e\<lparr>sol := vec\<rparr>)"

definition ElementBase_set_velocity ::
  "real list \<Rightarrow> bool \<Rightarrow> 'a StructuralElement \<Rightarrow> 'a StructuralElement" where
  "ElementBase_set_velocity vec if_sens e =
     (if if_sens then e\<lparr>vel_sens := vec\<rparr> else e\<lparr>vel := vec\<rparr>)"

definition ElementBase_set_base_solution ::
  "real list \<Rightarrow> bool \<Rightarrow> 'a StructuralElement \<Rightarrow> 'a StructuralElement" where
  "ElementBase_set_base_solution vec if_sens e =
     (if if_sens then e\<lparr>base_sol_sens := vec\<rparr> else e\<lparr>base_sol := vec\<rparr>)"

definition set_solution ::
  "real list \<Rightarrow> bool \<Rightarrow> 'a StructuralElement \<Rightarrow> error + 'a StructuralElement" where
  "set_solution vec if_sens e =
     bind_res
       (if \<not> if_sens
        then bind_res (transform_vector_to_local_system e vec (local_sol e))
               (\<lambda>l. Inr (e\<lparr>local_sol := l\<rparr>))
        else Inl LibmeshError)
       (\<lambda>e'. Inr (ElementBase_set_solution vec if_sens e'))"

definition set_velocity ::
  "real list \<Rightarrow> bool \<Rightarrow> 'a StructuralElement \<Rightarrow> error + 'a StructuralElement" where
  "set_velocity vec if_sens e =
     bind_res
       (if \<not> if_sens
        then bind_res (transform_vector_to_local_system e vec (local_vel e))
               (\<lambda>l. Inr (e\<lparr>local_vel := l\<rparr>))
        else Inl LibmeshError)
       (\<lambda>e'. Inr (ElementBase_set_velocity vec if_sens e'))"

definition set_base_solution ::
  "real list \<Rightarrow> bool \<Rightarrow> 'a StructuralElement \<Rightarrow> error + 'a StructuralElement" where
  "set_base_solution vec if_sens e =
     bind_res
       (if \<not> if_sens
        then bind_res (transform_vector_to_local_system e vec (local_base_sol e))
               (\<lambda>l. Inr (e\<lparr>local_base_sol := l\<rparr>))
        else Inl LibmeshError)
       (\<lambda>e'. Inr (ElementBase_set_base_solution vec if_sens e'))"

subsection \<open>Inertial residual\<close>

text \<open>
  The lumped branch writes \<^verbatim>\<open>local_jac(i_var*nshp+i, i_var*nshp+i) = vol*material_mat(i_var, i_var)\<close>
  for \<open>i_var < 6\<close> and \<open>i < nshp\<close>.
\<close>

definition lumped_mass_matrix :: "nat \<Rightarrow> nat \<Rightarrow> real \<Rightarrow> real matrix \<Rightarrow> real matrix" where
  "lumped_mass_matrix n2 nshp vol material_mat =
     fold (\<lambda>i_var. fold (\<lambda>i m. mat_set m (i_var * nshp + i) (i_var * nshp + i)
                                  (vol * coeff material_mat i_var i_var)) [0..<nshp])
       [0..<6] (zero_mat n2 n2)"

text \<open>
  One pass of the quadrature loop of the consistent branch, for the inertia matrix
  evaluated at the local point \<open>x\<close>. The state is \<^verbatim>\<open>local_f\<close>, \<^verbatim>\<open>local_jac\<close> and the list
  of the points at which \<^verbatim>\<open>mat_inertia\<close> has been evaluated so far, in order.
\<close>

definition consistent_mass_qp ::
  "'a StructuralElement \<Rightarrow> bool \<Rightarrow> point \<Rightarrow> nat \<Rightarrow> real list \<times> real matrix \<times> point list \<Rightarrow>
     error + (real list \<times> real matrix \<times> point list)" where
  "consistent_mass_qp e request_jacobian x qp s =
     (case s of (local_f, local_jac, evaluated) \<Rightarrow>
        let p = global_coordinates_location e x;
            material_mat = inertia_matrix e p (time e);
            phi = get_phi (fe e)
        in
        bind_res (shape_values (zero_vec (length phi)) phi qp) (\<lambda>phi_vec.
        let Bmat = reinit (n_vars e) phi_vec in
        bind_res (left_multiply Bmat material_mat) (\<lambda>mat1_n1n2.
        bind_res (mat_vec_mult mat1_n1n2 (local_accel e)) (\<lambda>vec1_n1.
        bind_res (vector_mult_transpose Bmat vec1_n1) (\<lambda>vec2_n2.
        bind_res (nth_checked (get_JxW (fe e)) qp) (\<lambda>w.
        bind_res (vec_add local_f (vec_scale w vec2_n2)) (\<lambda>local_f'.
          if request_jacobian
          then bind_res (right_multiply_transpose Bmat mat1_n1n2) (\<lambda>mat2_n2n2.
               bind_res (mat_add local_jac (mat_scale w mat2_n2n2)) (\<lambda>local_jac'.
                 Inr (local_f', local_jac', evaluated @ [p])))
          else Inr (local_f', local_jac, evaluated @ [p]))))))))"

text \<open>
  The local force, the local mass matrix and the evaluation points of \<^verbatim>\<open>inertial_residual\<close>,
  before the transformation to the global frame. In the lumped branch the loops read
  \<^verbatim>\<open>material_mat(i_var, i_var)\<close> and write \<^verbatim>\<open>local_jac\<close> up to index \<open>6 * nshp - 1\<close>; these
  accesses are inside the matrices exactly when the test below passes. In the consistent
  branch the source reads \<^verbatim>\<open>xyz[0]\<close> in every pass.
\<close>

definition inertial_local ::
  "'a StructuralElement \<Rightarrow> bool \<Rightarrow> error + (real list \<times> real matrix \<times> point list)" where
  "inertial_local e request_jacobian =
     (let JxW = get_JxW (fe e); xyz = get_xyz (fe e);
          n_phi = length (get_phi (fe e)); n2 = 6 * n_phi
      in
      if if_diagonal_mass_matrix e then
        bind_res (nth_checked xyz 0) (\<lambda>x0.
        let p = global_coordinates_location e x0;
            material_mat = inertia_matrix e p (time e);
            nshp = n_shape_functions (fe e);
            vol = sum_list JxW / real nshp
        in
        bind_res (if 0 < nshp \<and> (rows material_mat < 6 \<or> cols material_mat < 6 \<or> n_phi < nshp)
                  then Inl IndexOutOfRange
                  else Inr (lumped_mass_matrix n2 nshp vol material_mat)) (\<lambda>local_jac.
        bind_res (mat_vec_mult local_jac (local_accel e)) (\<lambda>local_f.
          Inr (local_f, local_jac, [p]))))
      else
        for_each (\<lambda>qp s. bind_res (nth_checked xyz 0) (\<lambda>x. consistent_mass_qp e request_jacobian x qp s))
          [0..<length JxW] (zero_vec n2, zero_mat n2 n2, []))"

text \<open>
  The consistent branch as the specification words it: the inertia matrix of pass \<open>qp\<close> is
  evaluated at the location of quadrature point \<open>qp\<close>.
\<close>

definition inertial_local_spec ::
  "'a StructuralElement \<Rightarrow> bool \<Rightarrow> error + (real list \<times> real matrix \<times> point list)" where
  "inertial_local_spec e request_jacobian =
     (let JxW = get_JxW (fe e); xyz = get_xyz (fe e);
          n_phi = length (get_phi (fe e)); n2 = 6 * n_phi
      in
        for_each (\<lambda>qp s. bind_res (nth_checked xyz qp) (\<lambda>x. consistent_mass_qp e request_jacobian x qp s))
          [0..<length JxW] (zero_vec n2, zero_mat n2 n2, []))"

text \<open>
  \<^verbatim>\<open>inertial_residual\<close>: the local quantities, transformed to the global frame when the
  element has dimension below 3, are added to \<^verbatim>\<open>f\<close> and \<^verbatim>\<open>jac_xddot\<close>. The arguments
  \<^verbatim>\<open>jac_xdot\<close> and \<^verbatim>\<open>jac\<close> are never touched and are left out.
\<close>

definition inertial_residual ::
  "bool \<Rightarrow> real list \<Rightarrow> real matrix \<Rightarrow> 'a StructuralElement \<Rightarrow>
     error + (bool \<times> real list \<times> real matrix)" where
  "inertial_residual request_jacobian f jac_xddot e =
     bind_res (inertial_local e request_jacobian) (\<lambda>(local_f, local_jac, evaluated).
       let n2 = 6 * length (get_phi (fe e)) in
       if elem_dim e < 3 then
         bind_res (transform_vector_to_global_system e local_f (zero_vec n2)) (\<lambda>vec2_n2.
         bind_res (vec_add f vec2_n2) (\<lambda>f'.
           if request_jacobian
           then bind_res (transform_matrix_to_global_system e local_jac (zero_mat n2 n2)) (\<lambda>mat2_n2n2.
                bind_res (mat_add jac_xddot mat2_n2n2) (\<lambda>jac'.
                  Inr (request_jacobian, f', jac')))
           else Inr (request_jacobian, f', jac_xddot)))
       else
         bind_res (vec_add f local_f) (\<lambda>f'.
           if request_jacobian
           then bind_res (mat_add jac_xddot local_jac) (\<lambda>jac'. Inr (request_jacobian, f', jac'))
           else Inr (request_jacobian, f', jac_xddot)))"

subsection \<open>Surface pressure residual\<close>

text \<open>
  The loop \<^verbatim>\<open>force(i_dim) = press * normal(i_dim)\<close> for \<open>i_dim < 3\<close>, on the six-entry
  vector \<^verbatim>\<open>force\<close> whose last three entries are never written.
\<close>

definition pressure_force :: "real \<Rightarrow> point \<Rightarrow> real list" where
  "pressure_force press normal =
     fold (\<lambda>i_dim force. force[i_dim := press * point_coord normal i_dim]) [0..<3] (zero_vec 6)"

text \<open>
  \<^verbatim>\<open>libMesh::Point normal; normal(_elem.dim()) = -1.\<close>: the assumed direction of the
  whole-element variants. A point has three coordinates; the write is outside it when the
  dimension is 3, which only a build without assertions reaches.
\<close>

definition assumed_normal :: "nat \<Rightarrow> error + point" where
  "assumed_normal d =
     (if d = 0 then Inr (- 1, 0, 0) else if d = 1 then Inr (0, - 1, 0)
      else if d = 2 then Inr (0, 0, - 1) else Inl IndexOutOfRange)"

text \<open>
  One pass of the quadrature loop of the two steady routines. They differ in the
  quadrature data (side or element) and in the normal: \<^verbatim>\<open>face_normals[qp]\<close> in the side
  variant, the assumed normal in the whole-element variant.
\<close>

definition surface_pressure_qp ::
  "'a StructuralElement \<Rightarrow> fe_data \<Rightarrow> (nat \<Rightarrow> error + point) \<Rightarrow> (point \<Rightarrow> real \<Rightarrow> real) \<Rightarrow>
     nat \<Rightarrow> real list \<Rightarrow> error + real list" where
  "surface_pressure_qp e fd normal_at func qp local_f =
     bind_res (nth_checked (get_xyz fd) qp) (\<lambda>x.
     let pt = global_coordinates_location e x in
     bind_res (shape_values (zero_vec (length (get_phi fd))) (get_phi fd) qp) (\<lambda>phi_vec.
     let Bmat = reinit 6 phi_vec;
         press = func pt (time e)
     in
     bind_res (normal_at qp) (\<lambda>normal.
     bind_res (vector_mult_transpose Bmat (pressure_force press normal)) (\<lambda>vec_n2.
     bind_res (nth_checked (get_JxW fd) qp) (\<lambda>w.
       vec_add local_f (vec_scale w vec_n2))))))"

text \<open>\<^verbatim>\<open>surface_pressure_residual\<close> with a side argument.\<close>

definition surface_pressure_residual_side ::
  "bool \<Rightarrow> real list \<Rightarrow> real matrix \<Rightarrow> nat \<Rightarrow> 'a BoundaryCondition \<Rightarrow> 'a StructuralElement \<Rightarrow>
     error + (bool \<times> real list \<times> real matrix)" where
  "surface_pressure_residual_side request_jacobian f jac side bc e =
     bind_res (libmesh_assert (assertions_enabled e) (\<not> follower_forces e)) (\<lambda>_.
     let fd = side_fe e side;
         n2 = 6 * length (get_phi fd)
     in
     bind_res (get_field (pressure bc)) (\<lambda>func.
     bind_res (for_each (surface_pressure_qp e fd (nth_checked (get_normals fd)) func)
                 [0..<length (get_xyz fd)] (zero_vec n2)) (\<lambda>local_f.
     bind_res (if elem_dim e < 3
               then bind_res (transform_vector_to_global_system e local_f (zero_vec n2))
                      (\<lambda>vec_n2. vec_add f vec_n2)
               else vec_add f local_f) (\<lambda>f'.
       Inr (request_jacobian \<and> follower_forces e, f', jac)))))"

text \<open>\<^verbatim>\<open>surface_pressure_residual\<close> without a side argument (the element is the surface).\<close>

definition surface_pressure_residual ::
  "bool \<Rightarrow> real list \<Rightarrow> real matrix \<Rightarrow> 'a BoundaryCondition \<Rightarrow> 'a StructuralElement \<Rightarrow>
     error + (bool \<times> real list \<times> real matrix)" where
  "surface_pressure_residual request_jacobian f jac bc e =
     bind_res (libmesh_assert (assertions_enabled e) (elem_dim e < 3)) (\<lambda>_.
     bind_res (libmesh_assert (assertions_enabled e) (\<not> follower_forces e)) (\<lambda>_.
     let fd = fe e;
         n2 = 6 * length (get_phi fd)
     in
     bind_res (assumed_normal (elem_dim e)) (\<lambda>normal.
     bind_res (get_field (pressure bc)) (\<lambda>func.
     bind_res (for_each (surface_pressure_qp e fd (\<lambda>qp. Inr normal) func)
                 [0..<length (get_xyz fd)] (zero_vec n2)) (\<lambda>local_f.
     bind_res (transform_vector_to_global_system e local_f (zero_vec n2)) (\<lambda>vec_n2.
     bind_res (vec_add f vec_n2) (\<lambda>f'.
       Inr (request_jacobian \<and> follower_forces e, f', jac))))))))"

subsection \<open>Small-disturbance surface pressure residual\<close>

text \<open>
  The loop \<^verbatim>\<open>force(i_dim) = press * dn_rot(i_dim) + dpress * normal(i_dim)\<close> for \<open>i_dim < 3\<close>.
\<close>

definition small_disturbance_force ::
  "real \<Rightarrow> ('v::real_vector) \<Rightarrow> 'v list \<Rightarrow> point \<Rightarrow> error + 'v list" where
  "small_disturbance_force press dpress dn_rot normal =
     for_each (\<lambda>i_dim force.
         bind_res (nth_checked dn_rot i_dim) (\<lambda>dn.
           Inr (force[i_dim := scaleR press dn + scaleR (point_coord normal i_dim) dpress])))
       [0..<3] (zero_vec 6)"

text \<open>
  One pass of the quadrature loop of the two small-disturbance routines; \<open>phi_buf\<close> is the
  vector \<^verbatim>\<open>phi_vec\<close> as the routine declared it.
\<close>

definition small_disturbance_qp ::
  "'a StructuralElement \<Rightarrow> fe_data \<Rightarrow> real list \<Rightarrow> (nat \<Rightarrow> error + point) \<Rightarrow>
     (point \<Rightarrow> real \<Rightarrow> real) \<Rightarrow> (point \<Rightarrow> real \<Rightarrow> 'v) \<Rightarrow> (point \<Rightarrow> real \<Rightarrow> 'v list) \<Rightarrow>
     nat \<Rightarrow> ('v::real_vector) list \<Rightarrow> error + 'v list" where
  "small_disturbance_qp e fd phi_buf normal_at press_fn dpress_fn dn_rot_fn qp local_f =
     bind_res (nth_checked (get_xyz fd) qp) (\<lambda>x.
     let pt = global_coordinates_location e x in
     bind_res (shape_values phi_buf (get_phi fd) qp) (\<lambda>phi_vec.
     let Bmat = reinit 6 phi_vec;
         press = press_fn pt (time e);
         dpress = dpress_fn pt (time e);
         dn_rot = dn_rot_fn pt (time e)
     in
     bind_res (normal_at qp) (\<lambda>normal.
     bind_res (small_disturbance_force press dpress dn_rot normal) (\<lambda>force.
     bind_res (vector_mult_transpose Bmat force) (\<lambda>vec_n2.
     bind_res (nth_checked (get_JxW fd) qp) (\<lambda>w.
       vec_add local_f (vec_scale w vec_n2)))))))"

text \<open>
  \<^verbatim>\<open>small_disturbance_surface_pressure_residual\<close> with a side argument; \<^verbatim>\<open>phi_vec\<close> is
  declared with \<open>n_phi\<close> entries. \<^verbatim>\<open>MAST::add_to_assembled_vector\<close>, of
  \<^verbatim>\<open>numerics/utility.h\<close>, is not among the given sources and is a parameter.
\<close>

definition small_disturbance_surface_pressure_residual_side ::
  "(real list \<Rightarrow> 'a list \<Rightarrow> error + real list) \<Rightarrow> bool \<Rightarrow> real list \<Rightarrow> real matrix \<Rightarrow> nat \<Rightarrow>
     ('a::real_vector) BoundaryCondition \<Rightarrow> 'a StructuralElement \<Rightarrow>
     error + (bool \<times> real list \<times> real matrix)" where
  "small_disturbance_surface_pressure_residual_side add_to_assembled_vector
       request_jacobian f jac side bc e =
     bind_res (libmesh_assert (assertions_enabled e) (\<not> follower_forces e)) (\<lambda>_.
     bind_res (libmesh_assert (assertions_enabled e) (bc_type bc = SMALL_DISTURBANCE_MOTION)) (\<lambda>_.
     bind_res (get_field (pressure bc)) (\<lambda>press_fn.
     bind_res (get_field (dpressure bc)) (\<lambda>dpress_fn.
     bind_res (get_field (dnormal bc)) (\<lambda>dn_rot_fn.
     let fd = side_fe e side;
         n_phi = length (get_phi fd);
         n2 = 6 * n_phi
     in
     bind_res (for_each (small_disturbance_qp e fd (zero_vec n_phi) (nth_checked (get_normals fd))
                           press_fn dpress_fn dn_rot_fn)
                 [0..<length (get_xyz fd)] (zero_vec n2)) (\<lambda>local_f.
     bind_res (if elem_dim e < 3
               then bind_res (transform_vector_to_global_system e local_f (zero_vec n2))
                      (\<lambda>vec_n2. add_to_assembled_vector f vec_n2)
               else add_to_assembled_vector f local_f) (\<lambda>f'.
       Inr (request_jacobian \<and> follower_forces e, f', jac))))))))"

text \<open>
  \<^verbatim>\<open>small_disturbance_surface_pressure_residual\<close> without a side argument. Here the source
  declares \<^verbatim>\<open>RealVectorX phi_vec;\<close> with no size, so the vector is empty when the loop
  writes \<^verbatim>\<open>phi_vec(i_nd)\<close>.
\<close>

definition small_disturbance_surface_pressure_residual ::
  "(real list \<Rightarrow> 'a list \<Rightarrow> error + real list) \<Rightarrow> bool \<Rightarrow> real list \<Rightarrow> real matrix \<Rightarrow>
     ('a::real_vector) BoundaryCondition \<Rightarrow> 'a StructuralElement \<Rightarrow>
     error + (bool \<times> real list \<times> real matrix)" where
  "small_disturbance_surface_pressure_residual add_to_assembled_vector
       request_jacobian f jac bc e =
     bind_res (libmesh_assert (assertions_enabled e) (elem_dim e < 3)) (\<lambda>_.
     bind_res (libmesh_assert (assertions_enabled e) (\<not> follower_forces e)) (\<lambda>_.
     bind_res (libmesh_assert (assertions_enabled e) (bc_type bc = SMALL_DISTURBANCE_MOTION)) (\<lambda>_.
     bind_res (get_field (pressure bc)) (\<lambda>press_fn.
     bind_res (get_field (dpressure bc)) (\<lambda>dpress_fn.
     bind_res (get_field (dnormal bc)) (\<lambda>dn_rot_fn.
     let fd = fe e;
         n2 = 6 * length (get_phi fd)
     in
     bind_res (assumed_normal (elem_dim e)) (\<lambda>normal.
     bind_res (for_each (small_disturbance_qp e fd [] (\<lambda>qp. Inr normal)
                           press_fn dpress_fn dn_rot_fn)
                 [0..<length (get_xyz fd)] (zero_vec n2)) (\<lambda>local_f.
     bind_res (transform_vector_to_global_system e local_f (zero_vec n2)) (\<lambda>vec_n2.
     bind_res (add_to_assembled_vector f vec_n2) (\<lambda>f'.
       Inr (request_jacobian \<and> follower_forces e, f', jac)))))))))))"

subsection \<open>Dispatch of the boundary loads\<close>

text \<open>
  \<^verbatim>\<open>bc.equal_range(id)\<close> on the multimap, an association list: the conditions registered
  under the identifier.
\<close>

definition equal_range :: "('k \<times> 'b) list \<Rightarrow> 'k \<Rightarrow> 'b list" where
  "equal_range bc k = map snd (filter (\<lambda>kv. fst kv = k) bc)"

text \<open>
  The \<^verbatim>\<open>switch\<close> of \<^verbatim>\<open>side_external_residual\<close> on one matched condition. The state is
  \<^verbatim>\<open>calculate_jac\<close>, \<^verbatim>\<open>f\<close> and \<^verbatim>\<open>jac\<close>. In \<^verbatim>\<open>calculate_jac = (calculate_jac || handler(...))\<close>
  the handler runs only when \<^verbatim>\<open>calculate_jac\<close> is still false, and its result is then the
  new flag.
\<close>

definition side_dispatch ::
  "(real list \<Rightarrow> 'a list \<Rightarrow> error + real list) \<Rightarrow> 'a StructuralElement \<Rightarrow> bool \<Rightarrow> nat \<Rightarrow>
     ('a::real_vector) BoundaryCondition \<Rightarrow> bool \<times> real list \<times> real matrix \<Rightarrow>
     error + (bool \<times> real list \<times> real matrix)" where
  "side_dispatch add_to_assembled_vector e request_jacobian n bc s =
     (case s of (calculate_jac, f, jac) \<Rightarrow>
        (case bc_type bc of
           SURFACE_PRESSURE \<Rightarrow>
             if calculate_jac then Inr (True, f, jac)
             else surface_pressure_residual_side request_jacobian f jac n bc e
         | SMALL_DISTURBANCE_MOTION \<Rightarrow>
             if calculate_jac then Inr (True, f, jac)
             else small_disturbance_surface_pressure_residual_side add_to_assembled_vector
                    request_jacobian f jac n bc e
         | DIRICHLET \<Rightarrow> Inr (calculate_jac, f, jac)
         | TEMPERATURE \<Rightarrow> Inl LibmeshError
         | OTHER_TYPE k \<Rightarrow> Inl LibmeshError))"

text \<open>The three nested loops of \<^verbatim>\<open>side_external_residual\<close>: sides, boundary ids, conditions.\<close>

definition side_dispatch_loop ::
  "(real list \<Rightarrow> 'a list \<Rightarrow> error + real list) \<Rightarrow> bool \<Rightarrow> real list \<Rightarrow> real matrix \<Rightarrow>
     (nat \<times> ('a::real_vector) BoundaryCondition) list \<Rightarrow> 'a StructuralElement \<Rightarrow>
     error + (bool \<times> real list \<times> real matrix)" where
  "side_dispatch_loop add_to_assembled_vector request_jacobian f jac bc e =
     for_each (\<lambda>n s.
         if side_boundary_ids e ! n = [] then Inr s
         else for_each (\<lambda>bc_id.
                  for_each (side_dispatch add_to_assembled_vector e request_jacobian n)
                    (equal_range bc bc_id))
                (side_boundary_ids e ! n) s)
       [0..<length (side_boundary_ids e)] (False, f, jac)"

definition side_external_residual ::
  "(real list \<Rightarrow> 'a list \<Rightarrow> error + real list) \<Rightarrow> bool \<Rightarrow> real list \<Rightarrow> real matrix \<Rightarrow>
     (nat \<times> ('a::real_vector) BoundaryCondition) list \<Rightarrow> 'a StructuralElement \<Rightarrow>
     error + (bool \<times> real list \<times> real matrix)" where
  "side_external_residual add_to_assembled_vector request_jacobian f jac bc e =
     bind_res (side_dispatch_loop add_to_assembled_vector request_jacobian f jac bc e)
       (\<lambda>(calculate_jac, f', jac'). Inr (request_jacobian \<and> calculate_jac, f', jac'))"

text \<open>The \<^verbatim>\<open>switch\<close> of \<^verbatim>\<open>volume_external_residual\<close> on one matched condition.\<close>

definition volume_dispatch ::
  "(real list \<Rightarrow> 'a list \<Rightarrow> error + real list) \<Rightarrow> 'a StructuralElement \<Rightarrow> bool \<Rightarrow>
     ('a::real_vector) BoundaryCondition \<Rightarrow> bool \<times> real list \<times> real matrix \<Rightarrow>
     error + (bool \<times> real list \<times> real matrix)" where
  "volume_dispatch add_to_assembled_vector e request_jacobian bc s =
     (case s of (calculate_jac, f, jac) \<Rightarrow>
        (case bc_type bc of
           SURFACE_PRESSURE \<Rightarrow>
             if calculate_jac then Inr (True, f, jac)
             else surface_pressure_residual request_jacobian f jac bc e
         | TEMPERATURE \<Rightarrow>
             if calculate_jac then Inr (True, f, jac)
             else thermal_residual e request_jacobian f jac bc
         | SMALL_DISTURBANCE_MOTION \<Rightarrow>
             if calculate_jac then Inr (True, f, jac)
             else small_disturbance_surface_pressure_residual add_to_assembled_vector
                    request_jacobian f jac bc e
         | DIRICHLET \<Rightarrow> Inl LibmeshError
         | OTHER_TYPE k \<Rightarrow> Inl LibmeshError))"

definition volume_dispatch_loop ::
  "(real list \<Rightarrow> 'a list \<Rightarrow> error + real list) \<Rightarrow> bool \<Rightarrow> real list \<Rightarrow> real matrix \<Rightarrow>
     (nat \<times> ('a::real_vector) BoundaryCondition) list \<Rightarrow> 'a StructuralElement \<Rightarrow>
     error + (bool \<times> real list \<times> real matrix)" where
  "volume_dispatch_loop add_to_assembled_vector request_jacobian f jac bc e =
     for_each (volume_dispatch add_to_assembled_vector e request_jacobian)
       (equal_range bc (subdomain_id e)) (False, f, jac)"

definition volume_external_residual ::
  "(real list \<Rightarrow> 'a list \<Rightarrow> error + real list) \<Rightarrow> bool \<Rightarrow> real list \<Rightarrow> real matrix \<Rightarrow>
     (nat \<times> ('a::real_vector) BoundaryCondition) list \<Rightarrow> 'a StructuralElement \<Rightarrow>
     error + (bool \<times> real list \<times> real matrix)" where
  "volume_external_residual add_to_assembled_vector request_jacobian f jac bc e =
     bind_res (volume_dispatch_loop add_to_assembled_vector request_jacobian f jac bc e)
       (\<lambda>(calculate_jac, f', jac'). Inr (request_jacobian \<and> calculate_jac, f', jac'))"

subsection \<open>Notions used in the statements\<close>

text \<open>
  The matrix \<open>T\<close> is orthonormal when its rows are: \<open>T T\<^sup>T = 1\<close>.
\<close>

definition orthonormal3 :: "(nat \<Rightarrow> nat \<Rightarrow> real) \<Rightarrow> bool" where
  "orthonormal3 Tmat \<longleftrightarrow>
     (\<forall>i\<in>{..<3}. \<forall>j\<in>{..<3}. (\<Sum>k<3. Tmat i k * Tmat j k) = (if i = j then 1 else 0))"

text \<open>
  The positions written by one pass of the triple loop of the transformation routines, and
  the value a position receives.
\<close>

definition T_hit :: "nat \<Rightarrow> nat \<Rightarrow> nat \<Rightarrow> nat \<Rightarrow> nat \<Rightarrow> nat \<Rightarrow> bool" where
  "T_hit n i j k r c \<longleftrightarrow>
     (r = j * n + i \<and> c = k * n + i) \<or> (r = (j + 3) * n + i \<and> c = (k + 3) * n + i)"

definition T_val :: "nat \<Rightarrow> (nat \<Rightarrow> nat \<Rightarrow> real) \<Rightarrow> nat \<Rightarrow> nat \<Rightarrow> real" where
  "T_val n Tmat r c = Tmat (r div n mod 3) (c div n mod 3)"

text \<open>The \<open>6 \<times> 6\<close> matrix with the block \<open>T\<close> twice on its diagonal.\<close>

definition T6 :: "(nat \<Rightarrow> nat \<Rightarrow> real) \<Rightarrow> nat \<Rightarrow> nat \<Rightarrow> real" where
  "T6 Tmat I b = (if (I < 3 \<longleftrightarrow> b < 3) then Tmat (I mod 3) (b mod 3) else 0)"


text \<open>
  The return contract of the two dispatch routines as the specification words it: the flag
  accumulated over the handlers, or-ed with the caller's request.
\<close>

definition external_residual_return_spec ::
  "bool \<Rightarrow> error + (bool \<times> real list \<times> real matrix) \<Rightarrow> error + (bool \<times> real list \<times> real matrix)" where
  "external_residual_return_spec request_jacobian r =
     bind_res r (\<lambda>(calculate_jac, f', jac'). Inr (calculate_jac \<or> request_jacobian, f', jac'))"

text \<open>The tags with a case in the switch of the side dispatch, and of the volume dispatch.\<close>

definition side_supported :: "BoundaryConditionType set" where
  "side_supported = {SURFACE_PRESSURE, SMALL_DISTURBANCE_MOTION, DIRICHLET}"

definition volume_supported :: "BoundaryConditionType set" where
  "volume_supported = {SURFACE_PRESSURE, TEMPERATURE, SMALL_DISTURBANCE_MOTION}"

text \<open>
  The handler that the switch of the side dispatch, resp. of the volume dispatch, routes a
  matched condition to, applied to the current \<^verbatim>\<open>f\<close> and \<^verbatim>\<open>jac\<close>; none for a tag that has
  no handler.
\<close>

definition side_handler ::
  "(real list \<Rightarrow> 'a list \<Rightarrow> error + real list) \<Rightarrow> 'a StructuralElement \<Rightarrow> bool \<Rightarrow>
     nat \<times> ('a::real_vector) BoundaryCondition \<Rightarrow> real list \<Rightarrow> real matrix \<Rightarrow>
     (error + (bool \<times> real list \<times> real matrix)) option" where
  "side_handler add_to_assembled_vector e request_jacobian nc f jac =
     (case bc_type (snd nc) of
        SURFACE_PRESSURE \<Rightarrow>
          Some (surface_pressure_residual_side request_jacobian f jac (fst nc) (snd nc) e)
      | SMALL_DISTURBANCE_MOTION \<Rightarrow>
          Some (small_disturbance_surface_pressure_residual_side add_to_assembled_vector
                  request_jacobian f jac (fst nc) (snd nc) e)
      | _ \<Rightarrow> None)"

definition volume_handler ::
  "(real list \<Rightarrow> 'a list \<Rightarrow> error + real list) \<Rightarrow> 'a StructuralElement \<Rightarrow> bool \<Rightarrow>
     ('a::real_vector) BoundaryCondition \<Rightarrow> real list \<Rightarrow> real matrix \<Rightarrow>
     (error + (bool \<times> real list \<times> real matrix)) option" where
  "volume_handler add_to_assembled_vector e request_jacobian bc f jac =
     (case bc_type bc of
        SURFACE_PRESSURE \<Rightarrow> Some (surface_pressure_residual request_jacobian f jac bc e)
      | TEMPERATURE \<Rightarrow> Some (thermal_residual e request_jacobian f jac bc)
      | SMALL_DISTURBANCE_MOTION \<Rightarrow>
          Some (small_disturbance_surface_pressure_residual add_to_assembled_vector
                  request_jacobian f jac bc e)
      | _ \<Rightarrow> None)"

text \<open>
  The conditions the side dispatch meets, in its order, each with its side: for every side,
  for every boundary id of the side, the conditions registered under the id.
\<close>

definition side_matched ::
  "'a StructuralElement \<Rightarrow> (nat \<times> 'a BoundaryCondition) list \<Rightarrow> (nat \<times> 'a BoundaryCondition) list" where
  "side_matched e bc =
     concat (map (\<lambda>n. concat (map (\<lambda>bc_id. map (Pair n) (equal_range bc bc_id))
                                 (side_boundary_ids e ! n)))
               [0..<length (side_boundary_ids e)])"

text \<open>
  The flag of the specification, "some dispatched handler reported a Jacobian
  contribution", said without the accumulator of the source. \<open>handler_calls\<close> lists the
  results of the handlers that are dispatched, in order: conditions are taken one after
  the other, each handler works on the \<^verbatim>\<open>f\<close> and \<^verbatim>\<open>jac\<close> its predecessor left, and no further
  handler is dispatched once one has failed or has returned true. A result reports a
  Jacobian contribution when it is a return with the flag true.
\<close>

fun handler_calls ::
  "('x \<Rightarrow> real list \<Rightarrow> real matrix \<Rightarrow> (error + (bool \<times> real list \<times> real matrix)) option) \<Rightarrow>
     'x list \<Rightarrow> real list \<Rightarrow> real matrix \<Rightarrow> (error + (bool \<times> real list \<times> real matrix)) list" where
  "handler_calls h [] f jac = []"
| "handler_calls h (x # xs) f jac =
     (case h x f jac of
        None \<Rightarrow> handler_calls h xs f jac
      | Some (Inl err) \<Rightarrow> [Inl err]
      | Some (Inr s) \<Rightarrow>
          Inr s # (if fst s then [] else handler_calls h xs (fst (snd s)) (snd (snd s))))"

definition reports_jacobian :: "error + (bool \<times> real list \<times> real matrix) \<Rightarrow> bool" where
  "reports_jacobian r = (case r of Inl err \<Rightarrow> False | Inr s \<Rightarrow> fst s)"

definition some_handler_reported ::
  "('x \<Rightarrow> real list \<Rightarrow> real matrix \<Rightarrow> (error + (bool \<times> real list \<times> real matrix)) option) \<Rightarrow>
     'x list \<Rightarrow> real list \<Rightarrow> real matrix \<Rightarrow> bool" where
  "some_handler_reported h xs f jac \<longleftrightarrow> (\<exists>r\<in>set (handler_calls h xs f jac). reports_jacobian r)"

text \<open>
  Quadrature data as libMesh builds them: one weight and one value of every shape function
  for each quadrature point.
\<close>

definition quadrature_consistent :: "fe_data \<Rightarrow> bool" where
  "quadrature_consistent fd \<longleftrightarrow>
     length (get_JxW fd) = length (get_xyz fd) \<and>
     (\<forall>row\<in>set (get_phi fd). length row = length (get_xyz fd))"

subsection \<open>Concrete inputs\<close>

text \<open>
  A small element on which the theorems are exercised: one shape function, two quadrature
  points, an inertia matrix that grows along \<open>x\<close>, and a quarter turn about the \<open>z\<close> axis as
  a non-trivial local frame, in a build with assertions enabled.
\<close>

definition example_fe :: fe_data where
  "example_fe =
     \<lparr>get_JxW = [1, 1], get_xyz = [(0, 0, 0), (1, 0, 0)], get_phi = [[1, 1]],
      get_normals = [(0, 0, 1), (0, 0, 1)], n_shape_functions = 1\<rparr>"

definition example_inertia :: "point \<Rightarrow> real \<Rightarrow> real matrix" where
  "example_inertia p t = \<lparr>rows = 6, cols = 6, coeff = (\<lambda>i j. if i = j then 1 + fst p else 0)\<rparr>"

definition quarter_turn :: "nat \<Rightarrow> nat \<Rightarrow> real" where
  "quarter_turn j k =
     (if j = 0 \<and> k = 1 then - 1 else if j = 1 \<and> k = 0 then 1 else if j = 2 \<and> k = 2 then 1 else 0)"

definition identity3 :: "nat \<Rightarrow> nat \<Rightarrow> real" where
  "identity3 = (\<lambda>j k. if j = k then 1 else 0)"

definition example_element ::
  "nat \<Rightarrow> (nat \<Rightarrow> nat \<Rightarrow> real) \<Rightarrow> bool \<Rightarrow> bool \<Rightarrow> real StructuralElement" where
  "example_element d Tmat lumped ff =
     \<lparr>assertions_enabled = True, elem_dim = d, side_boundary_ids = [[7]], subdomain_id = 3,
      fe = example_fe, side_fe = (\<lambda>_. example_fe), T_matrix = Tmat,
      global_coordinates_location = (\<lambda>p. p), time = 0, follower_forces = ff, n_vars = 6,
      if_diagonal_mass_matrix = lumped, inertia_matrix = example_inertia,
      local_sol = zero_vec 6, local_vel = zero_vec 6, local_accel = [1, 0, 0, 0, 0, 0],
      local_base_sol = zero_vec 6, sol = zero_vec 6, vel = zero_vec 6, base_sol = zero_vec 6,
      sol_sens = [], vel_sens = [], base_sol_sens = [],
      thermal_residual = (\<lambda>request_jacobian f jac bc. Inr (False, f, jac))\<rparr>"

definition example_bc :: "BoundaryConditionType \<Rightarrow> real BoundaryCondition" where
  "example_bc t =
     \<lparr>bc_type = t, pressure = Some (\<lambda>p t. 0), dpressure = Some (\<lambda>p t. 1),
      dnormal = Some (\<lambda>p t. [0, 0, 1])\<rparr>"

subsection \<open>Basic facts\<close>

lemma bind_res_simps [simp]:
  "bind_res (Inl err) k = Inl err" "bind_res (Inr x) k = k x"
  by (simp_all add: bind_res_def)

lemma bind_res_Inr_iff:
  "bind_res m k = Inr y \<longleftrightarrow> (\<exists>x. m = Inr x \<and> k x = Inr y)"
  by (cases m) simp_all

lemma isl_bind_res: "isl m \<Longrightarrow> isl (bind_res m k)"
  by (cases m) simp_all

lemma isl_bind_res_cases:
  assumes "\<And>x. m = Inr x \<Longrightarrow> isl (k x)"
  shows "isl (bind_res m k)"
  using assms by (cases m) simp_all

lemma libmesh_assert_simps [simp]:
  "libmesh_assert enabled True = Inr ()" "libmesh_assert False cond = Inr ()"
  "libmesh_assert True False = Inl AssertionFailed"
  by (simp_all add: libmesh_assert_def)

lemma nth_checked_simps [simp]:
  "i < length xs \<Longrightarrow> nth_checked xs i = Inr (xs ! i)"
  "\<not> i < length xs \<Longrightarrow> nth_checked xs i = Inl IndexOutOfRange"
  by (simp_all add: nth_checked_def)

lemma length_zero_vec [simp]: "length (zero_vec n) = n"
  by (simp add: zero_vec_def)

lemma nth_zero_vec [simp]: "i < n \<Longrightarrow> zero_vec n ! i = 0"
  by (simp add: zero_vec_def)

lemma upt2: "[0..<2] = [0, 1]"
  by (simp add: upt_rec)

lemma upt3: "[0..<3] = [0, 1, 2]"
  by (simp add: upt_rec)

lemma upt6: "[0..<6] = [0, 1, 2, 3, 4, 5]"
  by (simp add: upt_rec)

lemma replicate6: "replicate 6 x = [x, x, x, x, x, x]"
  by (simp add: numeral_eq_Suc)

lemma sum3: "sum g {..<3::nat} = g 0 + g 1 + g 2"
  by (simp add: numeral_eq_Suc)

lemma sum6: "sum g {..<6::nat} = g 0 + g 1 + g 2 + g 3 + g 4 + g 5"
  by (simp add: numeral_eq_Suc)

lemma for_each_fails:
  assumes "x \<in> set xs" and "\<And>s. isl (body x s)"
  shows "isl (for_each body xs s)"
  using assms(1)
proof (induction xs arbitrary: s)
  case Nil
  then show ?case by simp
next
  case (Cons a xs)
  show ?case
  proof (cases "body a s")
    case (Inl err)
    then show ?thesis by simp
  next
    case (Inr s')
    with assms(2) [of s] have "a \<noteq> x" by auto
    with Cons.prems have "x \<in> set xs" by simp
    then show ?thesis using Cons.IH Inr by simp
  qed
qed

lemma for_each_skip:
  assumes "\<And>x s. x \<in> set xs \<Longrightarrow> body x s = Inr s"
  shows "for_each body xs s = Inr s"
  using assms by (induction xs) simp_all

lemma for_each_fixed:
  assumes "\<And>x. x \<in> set xs \<Longrightarrow> body x s = Inr s"
  shows "for_each body xs s = Inr s"
  using assms by (induction xs) simp_all

lemma for_each_invariant:
  assumes "for_each body xs s = Inr s'" and "P s"
    and "\<And>x t t'. x \<in> set xs \<Longrightarrow> P t \<Longrightarrow> body x t = Inr t' \<Longrightarrow> P t'"
  shows "P s'"
  using assms
proof (induction xs arbitrary: s)
  case Nil
  then show ?case by simp
next
  case (Cons a xs)
  from Cons.prems(1) obtain t where t: "body a s = Inr t" "for_each body xs t = Inr s'"
    by (auto simp add: bind_res_Inr_iff)
  have "P t" using Cons.prems(3) [of a s t] Cons.prems(2) t(1) by simp
  moreover have "P u'" if "x \<in> set xs" "P u" "body x u = Inr u'" for x u u'
    using Cons.prems(3) [of x u u'] that by simp
  ultimately show ?case using Cons.IH [OF t(2)] by blast
qed

lemma example_side_ids [simp]:
  "side_boundary_ids (example_element d Tm l ff) = [[7]]"
  "subdomain_id (example_element d Tm l ff) = 3"
  by (simp_all add: example_element_def)

lemma example_bc_type [simp]: "bc_type (example_bc t) = t"
  by (simp add: example_bc_def)

subsection \<open>The coefficients of the block transformation matrix\<close>

text \<open>
  Each pass of the triple loop writes two coefficients; no coefficient is written twice with
  different values, so the filled matrix has a closed form.
\<close>

lemma T_hit_val:
  assumes "i < n" "j < 3" "k < 3" "T_hit n i j k r c"
  shows "T_val n Tmat r c = Tmat j k"
  using assms unfolding T_hit_def T_val_def
  by (elim disjE conjE) (simp_all add: div_add1_eq)

lemma coeff_T_assign:
  assumes "i < n" "j < 3" "k < 3"
  shows "coeff (T_assign n Tmat i j k m) r c =
           (if T_hit n i j k r c then T_val n Tmat r c else coeff m r c)"
proof (cases "T_hit n i j k r c")
  case True
  then have "T_val n Tmat r c = Tmat j k"
    using T_hit_val assms by blast
  moreover have "coeff (T_assign n Tmat i j k m) r c = Tmat j k"
    using True unfolding T_hit_def T_assign_def mat_set_def by auto
  ultimately show ?thesis using True by simp
next
  case False
  then show ?thesis
    unfolding T_hit_def T_assign_def mat_set_def by auto
qed

lemma coeff_fold_hit:
  assumes "\<And>x m r c. x \<in> set xs \<Longrightarrow> coeff (step x m) r c = (if hit x r c then F r c else coeff m r c)"
  shows "coeff (fold step xs m) r c = (if \<exists>x\<in>set xs. hit x r c then F r c else coeff m r c)"
  using assms
proof (induction xs arbitrary: m)
  case Nil
  then show ?case by simp
next
  case (Cons a xs)
  have "coeff (fold step xs (step a m)) r c =
          (if \<exists>x\<in>set xs. hit x r c then F r c else coeff (step a m) r c)"
    using Cons.IH [of "step a m"] Cons.prems by simp
  then show ?case using Cons.prems [of a m r c] by simp
qed

lemma coeff_init_T_mat_hit:
  "coeff (init_T_mat n Tmat) r c =
     (if \<exists>i<n. \<exists>j<3. \<exists>k<3. T_hit n i j k r c then T_val n Tmat r c else 0)"
proof -
  have inner: "coeff (fold (\<lambda>k. T_assign n Tmat i j k) [0..<3] m) r c =
      (if \<exists>k\<in>set [0..<3]. T_hit n i j k r c then T_val n Tmat r c else coeff m r c)"
    if "i < n" "j < 3" for i j m r c
    by (rule coeff_fold_hit) (use that in \<open>simp add: coeff_T_assign\<close>)
  have middle: "coeff (fold (\<lambda>j. fold (\<lambda>k. T_assign n Tmat i j k) [0..<3]) [0..<3] m) r c =
      (if \<exists>j\<in>set [0..<3]. \<exists>k\<in>set [0..<3]. T_hit n i j k r c then T_val n Tmat r c else coeff m r c)"
    if "i < n" for i m r c
    by (rule coeff_fold_hit) (use that in \<open>simp add: inner\<close>)
  have outer: "coeff (fold (\<lambda>i. fold (\<lambda>j. fold (\<lambda>k. T_assign n Tmat i j k) [0..<3]) [0..<3]) [0..<n] m) r c =
      (if \<exists>i\<in>set [0..<n]. \<exists>j\<in>set [0..<3]. \<exists>k\<in>set [0..<3]. T_hit n i j k r c
       then T_val n Tmat r c else coeff m r c)" for m
    by (rule coeff_fold_hit) (simp add: middle)
  show ?thesis
    unfolding init_T_mat_def outer by (auto simp add: zero_mat_def)
qed

lemma T_hit_closed:
  "(\<exists>i<n. \<exists>j<3. \<exists>k<3. T_hit n i j k r c) \<longleftrightarrow>
     (0 < n \<and> r mod n = c mod n \<and> r div n < 6 \<and> c div n < 6 \<and> (r div n < 3 \<longleftrightarrow> c div n < 3))"
proof
  assume "\<exists>i<n. \<exists>j<3. \<exists>k<3. T_hit n i j k r c"
  then obtain i j k where h: "i < n" "j < 3" "k < 3" "T_hit n i j k r c" by blast
  from h show "0 < n \<and> r mod n = c mod n \<and> r div n < 6 \<and> c div n < 6 \<and> (r div n < 3 \<longleftrightarrow> c div n < 3)"
    unfolding T_hit_def by (elim disjE conjE) (simp_all add: div_add1_eq)
next
  assume a: "0 < n \<and> r mod n = c mod n \<and> r div n < 6 \<and> c div n < 6 \<and> (r div n < 3 \<longleftrightarrow> c div n < 3)"
  then have i: "r mod n < n" by simp
  have r: "r = (r div n) * n + r mod n"
    by simp
  have c: "c = (c div n) * n + r mod n"
    using a by simp
  show "\<exists>i<n. \<exists>j<3. \<exists>k<3. T_hit n i j k r c"
  proof (cases "r div n < 3")
    case True
    then have "c div n < 3" using a by simp
    moreover have "T_hit n (r mod n) (r div n) (c div n) r c"
      unfolding T_hit_def using r c by simp
    ultimately show ?thesis using i True by blast
  next
    case False
    then have cf: "\<not> c div n < 3" using a by simp
    have "r div n - 3 < 3" "c div n - 3 < 3" using a by auto
    moreover have "r div n - 3 + 3 = r div n" "c div n - 3 + 3 = c div n"
      using False cf by simp_all
    then have "T_hit n (r mod n) (r div n - 3) (c div n - 3) r c"
      unfolding T_hit_def using r c by simp
    ultimately show ?thesis using i by blast
  qed
qed

lemma coeff_init_T_mat:
  "coeff (init_T_mat n Tmat) r c =
     (if 0 < n \<and> r mod n = c mod n \<and> r div n < 6 \<and> c div n < 6 \<and> (r div n < 3 \<longleftrightarrow> c div n < 3)
      then Tmat (r div n mod 3) (c div n mod 3) else 0)"
  unfolding coeff_init_T_mat_hit T_hit_closed T_val_def ..

lemma orthonormal3D:
  assumes "orthonormal3 Tmat" "i < 3" "j < 3"
  shows "Tmat i 0 * Tmat j 0 + Tmat i 1 * Tmat j 1 + Tmat i 2 * Tmat j 2 = (if i = j then 1 else 0)"
  using assms unfolding orthonormal3_def by (simp add: sum3)

lemma T6_low:
  assumes "I < 3"
  shows "T6 Tmat I 0 = Tmat I 0" "T6 Tmat I 1 = Tmat I 1" "T6 Tmat I 2 = Tmat I 2"
        "T6 Tmat I 3 = 0" "T6 Tmat I 4 = 0" "T6 Tmat I 5 = 0"
  using assms by (simp_all add: T6_def)

lemma T6_high:
  assumes "\<not> I < 3"
  shows "T6 Tmat I 0 = 0" "T6 Tmat I 1 = 0" "T6 Tmat I 2 = 0"
        "T6 Tmat I 3 = Tmat (I mod 3) 0" "T6 Tmat I 4 = Tmat (I mod 3) 1"
        "T6 Tmat I 5 = Tmat (I mod 3) 2"
  using assms by (simp_all add: T6_def)

lemma gram6:
  assumes o: "orthonormal3 Tmat" and I: "I < 6" and J: "J < 6"
  shows "(\<Sum>b<6. T6 Tmat I b * T6 Tmat J b) = (if I = J then 1 else 0)"
proof -
  consider (ll) "I < 3" "J < 3" | (lh) "I < 3" "\<not> J < 3" | (hl) "\<not> I < 3" "J < 3"
    | (hh) "\<not> I < 3" "\<not> J < 3" by blast
  then show ?thesis
  proof cases
    case ll
    show ?thesis
      unfolding sum6 T6_low [OF ll(1)] T6_low [OF ll(2)]
      using orthonormal3D [OF o ll] by simp
  next
    case lh
    then have "I \<noteq> J" by auto
    then show ?thesis
      unfolding sum6 T6_low [OF lh(1)] T6_high [OF lh(2)] by simp
  next
    case hl
    then have "I \<noteq> J" by auto
    then show ?thesis
      unfolding sum6 T6_high [OF hl(1)] T6_low [OF hl(2)] by simp
  next
    case hh
    have a: "I mod 3 < 3" "J mod 3 < 3" by simp_all
    have "I = 3 + I mod 3" "J = 3 + J mod 3"
      using hh I J by presburger+
    then have e: "(I mod 3 = J mod 3) = (I = J)" by metis
    show ?thesis
      unfolding sum6 T6_high [OF hh(1)] T6_high [OF hh(2)]
      using orthonormal3D [OF o a] by (simp add: e)
  qed
qed

lemma sum_block_single:
  fixes g :: "nat \<Rightarrow> real"
  assumes a: "a < n" and z: "\<And>k. k mod n \<noteq> a \<Longrightarrow> g k = 0"
  shows "sum g {..<6 * n} = (\<Sum>b<6. g (b * n + a))"
proof -
  have "sum g {..<6 * n} = (\<Sum>b<6. sum g {b * n..<b * n + n})"
    by (rule sum.nat_group [symmetric])
  also have "\<dots> = (\<Sum>b<6. g (b * n + a))"
  proof (rule sum.cong [OF refl])
    fix b
    have "sum g {b * n..<b * n + n} = sum g {b * n + a}"
    proof (rule sum.mono_neutral_right)
      show "\<forall>i\<in>{b * n..<b * n + n} - {b * n + a}. g i = 0"
      proof
        fix i assume i: "i \<in> {b * n..<b * n + n} - {b * n + a}"
        then obtain d where d: "i = b * n + d" "d < n"
          by (metis DiffD1 atLeastLessThan_iff le_Suc_ex nat_add_left_cancel_less)
        with i have "d \<noteq> a" by auto
        then have "i mod n \<noteq> a" using d by simp
        then show "g i = 0" by (rule z)
      qed
    qed (use a in auto)
    then show "sum g {b * n..<b * n + n} = g (b * n + a)" by simp
  qed
  finally show ?thesis .
qed


lemma coeff_init_T_mat_block:
  assumes "a < n" "b < 6"
  shows "coeff (init_T_mat n Tmat) r (b * n + a) =
           (if r mod n = a \<and> r div n < 6 then T6 Tmat (r div n) b else 0)"
  using assms by (auto simp add: coeff_init_T_mat T6_def div_add1_eq)

lemma gram_init_T_mat:
  assumes o: "orthonormal3 Tmat" and i: "i < 6 * n" and j: "j < 6 * n"
  shows "(\<Sum>k<6 * n. coeff (init_T_mat n Tmat) i k * coeff (init_T_mat n Tmat) j k) =
           (if i = j then 1 else 0)"
proof -
  let ?M = "init_T_mat n Tmat"
  have n: "0 < n" using i by (cases n) simp_all
  have a: "i mod n < n" using n by simp
  have I: "i div n < 6" using i n by (simp add: less_mult_imp_div_less mult.commute)
  have J: "j div n < 6" using j n by (simp add: less_mult_imp_div_less mult.commute)
  have z: "coeff ?M i k * coeff ?M j k = 0" if "k mod n \<noteq> i mod n" for k
    using that by (auto simp add: coeff_init_T_mat)
  have "(\<Sum>k<6 * n. coeff ?M i k * coeff ?M j k) =
          (\<Sum>b<6. coeff ?M i (b * n + i mod n) * coeff ?M j (b * n + i mod n))"
    by (rule sum_block_single [OF a]) (rule z)
  also have "\<dots> = (\<Sum>b<6. if j mod n = i mod n then T6 Tmat (i div n) b * T6 Tmat (j div n) b else 0)"
    by (rule sum.cong [OF refl]) (simp add: coeff_init_T_mat_block [OF a] I J)
  also have "\<dots> = (if j mod n = i mod n then (\<Sum>b<6. T6 Tmat (i div n) b * T6 Tmat (j div n) b) else 0)"
    by simp
  also have "\<dots> = (if j mod n = i mod n \<and> i div n = j div n then 1 else 0)"
    by (subst gram6 [OF o I J]) simp
  also have "\<dots> = (if i = j then 1 else 0)"
    by (metis div_mult_mod_eq)
  finally show ?thesis .
qed

lemma scaleR_delta_sum:
  fixes v :: "nat \<Rightarrow> 'v::real_vector"
  assumes "i < N"
  shows "(\<Sum>j<N. scaleR (if i = j then 1 else 0 :: real) (v j)) = v i"
proof -
  have "(\<Sum>j<N. scaleR (if i = j then 1 else 0 :: real) (v j)) = (\<Sum>j<N. if i = j then v j else 0)"
    by (rule sum.cong [OF refl]) simp
  also have "\<dots> = v i" using assms by simp
  finally show ?thesis .
qed

lemma gram_apply:
  fixes v :: "nat \<Rightarrow> 'v::real_vector"
  assumes o: "orthonormal3 Tmat" and i: "i < 6 * n"
  shows "(\<Sum>k<6 * n. scaleR (coeff (init_T_mat n Tmat) i k)
            (\<Sum>j<6 * n. scaleR (coeff (init_T_mat n Tmat) j k) (v j))) = v i"
proof -
  let ?M = "init_T_mat n Tmat"
  have "(\<Sum>k<6 * n. scaleR (coeff ?M i k) (\<Sum>j<6 * n. scaleR (coeff ?M j k) (v j))) =
        (\<Sum>k<6 * n. \<Sum>j<6 * n. scaleR (coeff ?M i k * coeff ?M j k) (v j))"
    by (simp add: scaleR_sum_right)
  also have "\<dots> = (\<Sum>j<6 * n. \<Sum>k<6 * n. scaleR (coeff ?M i k * coeff ?M j k) (v j))"
    by (rule sum.swap)
  also have "\<dots> = (\<Sum>j<6 * n. scaleR (\<Sum>k<6 * n. coeff ?M i k * coeff ?M j k) (v j))"
    by (simp add: scaleR_sum_left)
  also have "\<dots> = (\<Sum>j<6 * n. scaleR (if i = j then 1 else 0 :: real) (v j))"
    by (rule sum.cong [OF refl]) (simp add: gram_init_T_mat [OF o i])
  also have "\<dots> = v i"
    by (rule scaleR_delta_sum [OF i])
  finally show ?thesis .
qed


lemma group_mod3:
  assumes "I < 6" "J < 6" "(I < 3) = (J < 3)" "I mod 3 = J mod 3"
  shows "I = (J::nat)"
  using assms by presburger

lemma coeff_init_T_mat_identity:
  assumes r: "r < 6 * n" and c: "c < 6 * n"
  shows "coeff (init_T_mat n (\<lambda>j k. if j = k then 1 else 0)) r c = (if r = c then 1 else 0)"
proof -
  have n: "0 < n" using r by (cases n) simp_all
  have R: "r div n < 6" using r n by (simp add: less_mult_imp_div_less mult.commute)
  have C: "c div n < 6" using c n by (simp add: less_mult_imp_div_less mult.commute)
  show ?thesis
  proof (cases "r = c")
    case True
    then show ?thesis using n R by (simp add: coeff_init_T_mat)
  next
    case False
    have "r div n \<noteq> c div n" if "r mod n = c mod n"
      using that False by (metis div_mult_mod_eq)
    then have "\<not> (r mod n = c mod n \<and> (r div n < 3) = (c div n < 3) \<and> r div n mod 3 = c div n mod 3)"
      using group_mod3 [OF R C] by blast
    then show ?thesis using False by (auto simp add: coeff_init_T_mat)
  qed
qed

lemma identity_apply:
  fixes v :: "'v::real_vector list"
  assumes "i < 6 * n" "length v = 6 * n"
  shows "(\<Sum>j<6 * n. scaleR (coeff (init_T_mat n (\<lambda>j k. if j = k then 1 else 0)) i j) (v ! j)) = v ! i"
proof -
  have "(\<Sum>j<6 * n. scaleR (coeff (init_T_mat n (\<lambda>j k. if j = k then 1 else 0)) i j) (v ! j)) =
        (\<Sum>j<6 * n. scaleR (if i = j then 1 else 0 :: real) (v ! j))"
    by (rule sum.cong [OF refl]) (simp add: coeff_init_T_mat_identity assms)
  also have "\<dots> = v ! i" by (rule scaleR_delta_sum) (rule assms)
  finally show ?thesis .
qed

lemma identity_apply_transpose:
  fixes v :: "'v::real_vector list"
  assumes "i < 6 * n" "length v = 6 * n"
  shows "(\<Sum>j<6 * n. scaleR (coeff (init_T_mat n (\<lambda>j k. if j = k then 1 else 0)) j i) (v ! j)) = v ! i"
proof -
  have "(\<Sum>j<6 * n. scaleR (coeff (init_T_mat n (\<lambda>j k. if j = k then 1 else 0)) j i) (v ! j)) =
        (\<Sum>j<6 * n. scaleR (if i = j then 1 else 0 :: real) (v ! j))"
    by (rule sum.cong [OF refl]) (auto simp add: coeff_init_T_mat_identity assms)
  also have "\<dots> = v ! i" by (rule scaleR_delta_sum) (rule assms)
  finally show ?thesis .
qed

lemma rows_init_T_mat [simp]:
  "rows (init_T_mat n Tmat) = 6 * n" "cols (init_T_mat n Tmat) = 6 * n"
proof -
  have s: "rows (T_assign n Tmat i j k m) = rows m \<and> cols (T_assign n Tmat i j k m) = cols m" for i j k m
    by (simp add: T_assign_def mat_set_def)
  have f: "rows (fold step xs m) = rows m \<and> cols (fold step xs m) = cols m"
    if "\<And>x m. rows (step x m) = rows m \<and> cols (step x m) = cols m"
    for step :: "nat \<Rightarrow> real matrix \<Rightarrow> real matrix" and xs m
    using that by (induction xs arbitrary: m) simp_all
  have "rows (init_T_mat n Tmat) = 6 * n \<and> cols (init_T_mat n Tmat) = 6 * n"
    unfolding init_T_mat_def
    by (subst f) (intro f s allI, simp_all add: zero_mat_def f s)
  then show "rows (init_T_mat n Tmat) = 6 * n" "cols (init_T_mat n Tmat) = 6 * n" by simp_all
qed

lemma to_local_value:
  fixes v :: "'v::real_vector list"
  assumes "length v = 6 * n_shape_functions (fe e)" "length lbuf = length v"
  shows "transform_vector_to_local_system e v lbuf =
           Inr (map (\<lambda>i. \<Sum>j<6 * n_shape_functions (fe e).
                  scaleR (coeff (init_T_mat (n_shape_functions (fe e)) (T_matrix e)) j i) (v ! j))
                [0..<6 * n_shape_functions (fe e)])"
  using assms
  by (simp add: transform_vector_to_local_system_def libmesh_assert_def mat_vec_mult_def
      mat_transpose_def)

lemma to_global_value:
  fixes l :: "'v::real_vector list"
  assumes "length l = 6 * n_shape_functions (fe e)" "length gbuf = length l"
  shows "transform_vector_to_global_system e l gbuf =
           Inr (map (\<lambda>i. \<Sum>j<6 * n_shape_functions (fe e).
                  scaleR (coeff (init_T_mat (n_shape_functions (fe e)) (T_matrix e)) i j) (l ! j))
                [0..<6 * n_shape_functions (fe e)])"
  using assms
  by (simp add: transform_vector_to_global_system_def libmesh_assert_def mat_vec_mult_def)

subsection \<open>Round trip between the frames\<close>

text \<open>
  Claim C6. For a vector \<open>v\<close> of length six times the node count, with output buffers of
  that length: when the element's matrix \<open>T\<close> is orthonormal,
  \<^verbatim>\<open>transform_vector_to_global_system\<close> applied to the result of
  \<^verbatim>\<open>transform_vector_to_local_system\<close> gives back \<open>v\<close>; when \<open>T\<close> is the identity (the
  frame of a 3D element), each of the two routines returns \<open>v\<close> itself. The coefficients
  are exact reals or complex numbers, so the equality is exact.
\<close>

theorem transform_round_trip:
  fixes v :: "'v::real_vector list"
  assumes len: "length v = 6 * n_shape_functions (fe e)"
    and lb: "length lbuf = length v" and gb: "length gbuf = length v"
  shows "(orthonormal3 (T_matrix e) \<longrightarrow>
            bind_res (transform_vector_to_local_system e v lbuf)
              (\<lambda>l. transform_vector_to_global_system e l gbuf) = Inr v) \<and>
         (T_matrix e = (\<lambda>j k. if j = k then 1 else 0) \<longrightarrow>
            transform_vector_to_local_system e v lbuf = Inr v \<and>
            transform_vector_to_global_system e v gbuf = Inr v)"
proof (intro conjI impI)
  let ?n = "n_shape_functions (fe e)"
  let ?M = "init_T_mat ?n (T_matrix e)"
  let ?l = "map (\<lambda>i. \<Sum>j<6 * ?n. scaleR (coeff ?M j i) (v ! j)) [0..<6 * ?n]"
  {
    assume o: "orthonormal3 (T_matrix e)"
    have ll: "length ?l = 6 * ?n" by simp
    have "transform_vector_to_global_system e ?l gbuf =
            Inr (map (\<lambda>i. \<Sum>k<6 * ?n. scaleR (coeff ?M i k) (?l ! k)) [0..<6 * ?n])"
      by (rule to_global_value) (simp_all add: gb len)
    also have "map (\<lambda>i. \<Sum>k<6 * ?n. scaleR (coeff ?M i k) (?l ! k)) [0..<6 * ?n] = v"
    proof (rule nth_equalityI)
      show "length (map (\<lambda>i. \<Sum>k<6 * ?n. scaleR (coeff ?M i k) (?l ! k)) [0..<6 * ?n]) = length v"
        by (simp add: len)
    next
      fix i assume "i < length (map (\<lambda>i. \<Sum>k<6 * ?n. scaleR (coeff ?M i k) (?l ! k)) [0..<6 * ?n])"
      then have i: "i < 6 * ?n" by simp
      have "(\<Sum>k<6 * ?n. scaleR (coeff ?M i k) (?l ! k)) =
            (\<Sum>k<6 * ?n. scaleR (coeff ?M i k) (\<Sum>j<6 * ?n. scaleR (coeff ?M j k) (v ! j)))"
        by (rule sum.cong [OF refl]) simp
      also have "\<dots> = v ! i" by (rule gram_apply [OF o i])
      finally show "map (\<lambda>i. \<Sum>k<6 * ?n. scaleR (coeff ?M i k) (?l ! k)) [0..<6 * ?n] ! i = v ! i"
        using i by simp
    qed
    finally show "bind_res (transform_vector_to_local_system e v lbuf)
              (\<lambda>l. transform_vector_to_global_system e l gbuf) = Inr v"
      by (simp add: to_local_value [OF len lb])
  }
  {
    assume t: "T_matrix e = (\<lambda>j k. if j = k then 1 else 0)"
    have "?l = v"
      by (rule nth_equalityI) (simp_all add: len t identity_apply_transpose)
    then show "transform_vector_to_local_system e v lbuf = Inr v"
      by (simp add: to_local_value [OF len lb])
    have "map (\<lambda>i. \<Sum>j<6 * ?n. scaleR (coeff ?M i j) (v ! j)) [0..<6 * ?n] = v"
      by (rule nth_equalityI) (simp_all add: len t identity_apply)
    then show "transform_vector_to_global_system e v gbuf = Inr v"
      by (simp add: to_global_value [OF len gb])
  }
qed

lemma orthonormal3_quarter_turn: "orthonormal3 quarter_turn"
  unfolding orthonormal3_def
  by (auto simp add: sum3 quarter_turn_def)

theorem transform_round_trip_witness:
  "orthonormal3 quarter_turn \<and>
   bind_res (transform_vector_to_local_system (example_element 2 quarter_turn False False)
               [1, 2, 3, 4, 5, 6 :: real] (zero_vec 6))
     (\<lambda>l. transform_vector_to_global_system (example_element 2 quarter_turn False False) l (zero_vec 6))
     = Inr [1, 2, 3, 4, 5, 6] \<and>
   transform_vector_to_local_system (example_element 3 (\<lambda>j k. if j = k then 1 else 0) False False)
     [1, 2, 3, 4, 5, 6 :: real] (zero_vec 6) = Inr [1, 2, 3, 4, 5, 6] \<and>
   transform_vector_to_global_system (example_element 3 (\<lambda>j k. if j = k then 1 else 0) False False)
     [1, 2, 3, 4, 5, 6 :: real] (zero_vec 6) = Inr [1, 2, 3, 4, 5, 6]"
  using orthonormal3_quarter_turn
    transform_round_trip [of "[1, 2, 3, 4, 5, 6 :: real]" "example_element 2 quarter_turn False False"
      "zero_vec 6" "zero_vec 6"]
    transform_round_trip [of "[1, 2, 3, 4, 5, 6 :: real]"
      "example_element 3 (\<lambda>j k. if j = k then 1 else 0) False False" "zero_vec 6" "zero_vec 6"]
  by (simp add: example_element_def example_fe_def zero_vec_def)

subsection \<open>Setting the solution vectors\<close>

text \<open>
  Claim C10. With the sensitivity flag set, \<^verbatim>\<open>set_solution\<close>, \<^verbatim>\<open>set_velocity\<close> and
  \<^verbatim>\<open>set_base_solution\<close> end in \<^verbatim>\<open>libmesh_error()\<close> for every vector and every element,
  and no state is returned. With the flag false, a vector of length six times the node
  count (the cached local vector having that length) is transformed to the local frame
  and cached, and the global vector is kept.
\<close>

theorem set_vectors_sensitivity_flag:
  "set_solution vec True e = Inl LibmeshError \<and>
   set_velocity vec True e = Inl LibmeshError \<and>
   set_base_solution vec True e = Inl LibmeshError \<and>
   (length vec = 6 * n_shape_functions (fe e) \<longrightarrow>
      (length (local_sol e) = length vec \<longrightarrow>
         (\<exists>l. transform_vector_to_local_system e vec (local_sol e) = Inr l \<and>
              set_solution vec False e = Inr (e\<lparr>local_sol := l, sol := vec\<rparr>))) \<and>
      (length (local_vel e) = length vec \<longrightarrow>
         (\<exists>l. transform_vector_to_local_system e vec (local_vel e) = Inr l \<and>
              set_velocity vec False e = Inr (e\<lparr>local_vel := l, vel := vec\<rparr>))) \<and>
      (length (local_base_sol e) = length vec \<longrightarrow>
         (\<exists>l. transform_vector_to_local_system e vec (local_base_sol e) = Inr l \<and>
              set_base_solution vec False e = Inr (e\<lparr>local_base_sol := l, base_sol := vec\<rparr>))))"
  by (simp add: set_solution_def set_velocity_def set_base_solution_def to_local_value
      ElementBase_set_solution_def ElementBase_set_velocity_def ElementBase_set_base_solution_def)

theorem set_vectors_sensitivity_flag_witness:
  "set_solution [1, 2, 3, 4, 5, 6] True (example_element 2 quarter_turn False False) = Inl LibmeshError \<and>
   (\<exists>l. transform_vector_to_local_system (example_element 2 quarter_turn False False)
           [1, 2, 3, 4, 5, 6 :: real] (zero_vec 6) = Inr l \<and>
        set_solution [1, 2, 3, 4, 5, 6] False (example_element 2 quarter_turn False False) =
          Inr ((example_element 2 quarter_turn False False)\<lparr>local_sol := l, sol := [1, 2, 3, 4, 5, 6]\<rparr>)) \<and>
   (\<exists>l. transform_vector_to_local_system (example_element 2 quarter_turn False False)
           [1, 2, 3, 4, 5, 6 :: real] (zero_vec 6) = Inr l \<and>
        set_velocity [1, 2, 3, 4, 5, 6] False (example_element 2 quarter_turn False False) =
          Inr ((example_element 2 quarter_turn False False)\<lparr>local_vel := l, vel := [1, 2, 3, 4, 5, 6]\<rparr>)) \<and>
   (\<exists>l. transform_vector_to_local_system (example_element 2 quarter_turn False False)
           [1, 2, 3, 4, 5, 6 :: real] (zero_vec 6) = Inr l \<and>
        set_base_solution [1, 2, 3, 4, 5, 6] False (example_element 2 quarter_turn False False) =
          Inr ((example_element 2 quarter_turn False False)\<lparr>local_base_sol := l, base_sol := [1, 2, 3, 4, 5, 6]\<rparr>))"
  using set_vectors_sensitivity_flag [of "[1, 2, 3, 4, 5, 6]" "example_element 2 quarter_turn False False"]
  by (simp add: example_element_def example_fe_def zero_vec_def)

subsection \<open>Unsupported tags\<close>

lemma mem_equal_range: "(k, b) \<in> set bc \<Longrightarrow> b \<in> set (equal_range bc k)"
  by (force simp add: equal_range_def)

lemma side_dispatch_unsupported:
  assumes "bc_type b \<notin> side_supported"
  shows "side_dispatch add e rj n b s = Inl LibmeshError"
  using assms
  by (cases s; cases "bc_type b") (simp_all add: side_dispatch_def side_supported_def)

lemma volume_dispatch_unsupported:
  assumes "bc_type b \<notin> volume_supported"
  shows "volume_dispatch add e rj b s = Inl LibmeshError"
  using assms
  by (cases s; cases "bc_type b") (simp_all add: volume_dispatch_def volume_supported_def)

text \<open>
  Claim C3. A boundary condition whose tag has no case in the switch ends the dispatch in
  \<^verbatim>\<open>libmesh_error()\<close>: the switch of the side dispatch fails on every tag other than
  \<^verbatim>\<open>SURFACE_PRESSURE\<close>, \<^verbatim>\<open>SMALL_DISTURBANCE_MOTION\<close> and \<^verbatim>\<open>DIRICHLET\<close>, the switch of the
  volume dispatch on every tag other than \<^verbatim>\<open>SURFACE_PRESSURE\<close>, \<^verbatim>\<open>TEMPERATURE\<close> and
  \<^verbatim>\<open>SMALL_DISTURBANCE_MOTION\<close>; and \<^verbatim>\<open>side_external_residual\<close> (\<^verbatim>\<open>volume_external_residual\<close>)
  returns no result when such a condition is registered for a boundary id of a side (for
  the subdomain id) of the element.
\<close>

theorem unsupported_tag_is_fatal:
  "(bc_type b \<notin> side_supported \<longrightarrow>
      side_dispatch add e rj n b s = Inl LibmeshError \<and>
      (n < length (side_boundary_ids e) \<and> bc_id \<in> set (side_boundary_ids e ! n) \<and>
       (bc_id, b) \<in> set bc \<longrightarrow> isl (side_external_residual add rj f jac bc e))) \<and>
   (bc_type b \<notin> volume_supported \<longrightarrow>
      volume_dispatch add e rj b s = Inl LibmeshError \<and>
      ((subdomain_id e, b) \<in> set bc \<longrightarrow> isl (volume_external_residual add rj f jac bc e)))"
proof (intro conjI impI)
  assume u: "bc_type b \<notin> side_supported"
  show "side_dispatch add e rj n b s = Inl LibmeshError"
    by (rule side_dispatch_unsupported [OF u])
  assume m: "n < length (side_boundary_ids e) \<and> bc_id \<in> set (side_boundary_ids e ! n) \<and>
       (bc_id, b) \<in> set bc"
  have inner: "isl (for_each (side_dispatch add e rj n) (equal_range bc bc_id) t)" for t
    by (rule for_each_fails [of b]) (use m in \<open>simp_all add: mem_equal_range side_dispatch_unsupported [OF u]\<close>)
  have middle: "isl (for_each (\<lambda>bc_id. for_each (side_dispatch add e rj n) (equal_range bc bc_id))
                       (side_boundary_ids e ! n) t)" for t
    by (rule for_each_fails [of bc_id]) (use m inner in simp_all)
  have ne: "side_boundary_ids e ! n \<noteq> []" using m by auto
  have "isl (side_dispatch_loop add rj f jac bc e)"
    unfolding side_dispatch_loop_def
    by (rule for_each_fails [of n]) (use m ne middle in simp_all)
  then show "isl (side_external_residual add rj f jac bc e)"
    unfolding side_external_residual_def by (rule isl_bind_res)
next
  assume u: "bc_type b \<notin> volume_supported"
  show "volume_dispatch add e rj b s = Inl LibmeshError"
    by (rule volume_dispatch_unsupported [OF u])
  assume m: "(subdomain_id e, b) \<in> set bc"
  have "isl (volume_dispatch_loop add rj f jac bc e)"
    unfolding volume_dispatch_loop_def
    by (rule for_each_fails [of b]) (use m in \<open>simp_all add: mem_equal_range volume_dispatch_unsupported [OF u]\<close>)
  then show "isl (volume_external_residual add rj f jac bc e)"
    unfolding volume_external_residual_def by (rule isl_bind_res)
qed

theorem unsupported_tag_is_fatal_witness:
  "TEMPERATURE \<notin> side_supported \<and> DIRICHLET \<notin> volume_supported \<and>
   side_dispatch vec_add (example_element 2 quarter_turn False False) True 0
     (example_bc TEMPERATURE) (False, zero_vec 6, zero_mat 6 6) = Inl LibmeshError \<and>
   isl (side_external_residual vec_add True (zero_vec 6) (zero_mat 6 6)
          [(7, example_bc TEMPERATURE)] (example_element 2 quarter_turn False False)) \<and>
   volume_dispatch vec_add (example_element 2 quarter_turn False False) True
     (example_bc DIRICHLET) (False, zero_vec 6, zero_mat 6 6) = Inl LibmeshError \<and>
   isl (volume_external_residual vec_add True (zero_vec 6) (zero_mat 6 6)
          [(3, example_bc DIRICHLET)] (example_element 2 quarter_turn False False))"
  using
    unsupported_tag_is_fatal [of "example_bc TEMPERATURE" vec_add
      "example_element 2 quarter_turn False False" True 0 "(False, zero_vec 6, zero_mat 6 6)" 7
      "[(7, example_bc TEMPERATURE)]" "zero_vec 6" "zero_mat 6 6"]
    unsupported_tag_is_fatal [of "example_bc DIRICHLET" vec_add
      "example_element 2 quarter_turn False False" True 0 "(False, zero_vec 6, zero_mat 6 6)" 7
      "[(3, example_bc DIRICHLET)]" "zero_vec 6" "zero_mat 6 6"]
  by (simp add: side_supported_def volume_supported_def)

subsection \<open>Dirichlet conditions\<close>

text \<open>
  Claim C4, as stated, fails for the subdomain-based dispatch: a \<^verbatim>\<open>DIRICHLET\<close> condition
  registered for the element's subdomain ends \<^verbatim>\<open>volume_external_residual\<close> in the error
  of the default branch.
\<close>

theorem dirichlet_volume_counterexample:
  "volume_external_residual vec_add False (zero_vec 6) (zero_mat 6 6)
     [(3, example_bc DIRICHLET)] (example_element 2 quarter_turn False False) = Inl LibmeshError"
  by (simp add: volume_external_residual_def volume_dispatch_loop_def equal_range_def
      volume_dispatch_def)

text \<open>
  Claim C4, amended. In the side-based dispatch a matched \<^verbatim>\<open>DIRICHLET\<close> condition leaves the
  flag, \<^verbatim>\<open>f\<close> and \<^verbatim>\<open>jac\<close> as they are and raises nothing, and \<^verbatim>\<open>side_external_residual\<close>
  over conditions that are all \<^verbatim>\<open>DIRICHLET\<close> returns \<^verbatim>\<open>f\<close> and \<^verbatim>\<open>jac\<close> unchanged. The switch
  of the subdomain-based dispatch has no \<^verbatim>\<open>DIRICHLET\<close> case: there the condition is fatal.
\<close>

theorem dirichlet_dispatch:
  "(bc_type b = DIRICHLET \<longrightarrow>
      side_dispatch add e rj n b s = Inr s \<and> volume_dispatch add e rj b s = Inl LibmeshError) \<and>
   ((\<forall>n<length (side_boundary_ids e). \<forall>bc_id\<in>set (side_boundary_ids e ! n).
       \<forall>c\<in>set (equal_range bc bc_id). bc_type c = DIRICHLET) \<longrightarrow>
      side_external_residual add rj f jac bc e = Inr (False, f, jac))"
proof (intro conjI impI)
  assume d: "bc_type b = DIRICHLET"
  show "side_dispatch add e rj n b s = Inr s"
    using d by (cases s) (simp add: side_dispatch_def)
  show "volume_dispatch add e rj b s = Inl LibmeshError"
    using d by (cases s) (simp add: volume_dispatch_def)
next
  assume a: "\<forall>n<length (side_boundary_ids e). \<forall>bc_id\<in>set (side_boundary_ids e ! n).
       \<forall>c\<in>set (equal_range bc bc_id). bc_type c = DIRICHLET"
  have step: "side_dispatch add e rj n c t = Inr t" if "bc_type c = DIRICHLET" for n c t
    using that by (cases t) (simp add: side_dispatch_def)
  have "side_dispatch_loop add rj f jac bc e = Inr (False, f, jac)"
    unfolding side_dispatch_loop_def
  proof (rule for_each_skip)
    fix n t assume n: "n \<in> set [0..<length (side_boundary_ids e)]"
    have "for_each (\<lambda>bc_id. for_each (side_dispatch add e rj n) (equal_range bc bc_id))
            (side_boundary_ids e ! n) t = Inr t"
    proof (rule for_each_skip)
      fix bc_id u assume i: "bc_id \<in> set (side_boundary_ids e ! n)"
      show "for_each (side_dispatch add e rj n) (equal_range bc bc_id) u = Inr u"
        by (rule for_each_skip) (use a n i step in auto)
    qed
    then show "(if side_boundary_ids e ! n = [] then Inr t
          else for_each (\<lambda>bc_id. for_each (side_dispatch add e rj n) (equal_range bc bc_id))
                 (side_boundary_ids e ! n) t) = Inr t"
      by simp
  qed
  then show "side_external_residual add rj f jac bc e = Inr (False, f, jac)"
    by (simp add: side_external_residual_def)
qed

theorem dirichlet_dispatch_witness:
  "side_dispatch vec_add (example_element 2 quarter_turn False False) True 0
     (example_bc DIRICHLET) (False, zero_vec 6, zero_mat 6 6) = Inr (False, zero_vec 6, zero_mat 6 6) \<and>
   volume_dispatch vec_add (example_element 2 quarter_turn False False) True
     (example_bc DIRICHLET) (False, zero_vec 6, zero_mat 6 6) = Inl LibmeshError \<and>
   side_external_residual vec_add True (zero_vec 6) (zero_mat 6 6)
     [(7, example_bc DIRICHLET)] (example_element 2 quarter_turn False False) =
       Inr (False, zero_vec 6, zero_mat 6 6)"
  using dirichlet_dispatch [of "example_bc DIRICHLET" vec_add
      "example_element 2 quarter_turn False False" True 0 "(False, zero_vec 6, zero_mat 6 6)"
      "[(7, example_bc DIRICHLET)]" "zero_vec 6" "zero_mat 6 6"]
  by (simp add: equal_range_def)

subsection \<open>The flag returned by the dispatch\<close>

lemma for_each_cong:
  assumes "\<And>x s. x \<in> set xs \<Longrightarrow> body x s = body' x s"
  shows "for_each body xs s = for_each body' xs s"
  using assms
proof (induction xs arbitrary: s)
  case Nil
  show ?case by simp
next
  case (Cons a xs)
  have "for_each body xs t = for_each body' xs t" for t
    by (rule Cons.IH) (simp add: Cons.prems)
  then show ?case using Cons.prems [of a s] by (simp add: bind_res_def split: sum.splits)
qed

lemma for_each_append:
  "for_each body (xs @ ys) s = bind_res (for_each body xs s) (for_each body ys)"
proof (induction xs arbitrary: s)
  case Nil
  show ?case by simp
next
  case (Cons a xs)
  then show ?case by (cases "body a s") simp_all
qed

lemma for_each_concat:
  "for_each body (concat xss) s = for_each (\<lambda>xs. for_each body xs) xss s"
proof (induction xss arbitrary: s)
  case Nil
  show ?case by simp
next
  case (Cons xs xss)
  then show ?case by (cases "for_each body xs s") (simp_all add: for_each_append)
qed

lemma for_each_map:
  "for_each body (map g xs) s = for_each (\<lambda>x. body (g x)) xs s"
proof (induction xs arbitrary: s)
  case Nil
  show ?case by simp
next
  case (Cons a xs)
  then show ?case by (cases "body (g a) s") simp_all
qed

lemma for_each_map_fun: "for_each body (map g xs) = for_each (\<lambda>x. body (g x)) xs"
  by (rule ext) (rule for_each_map)

text \<open>The three nested loops of the side dispatch are one loop over the matched conditions.\<close>

lemma side_dispatch_loop_flat:
  "side_dispatch_loop add rj f jac bc e =
     for_each (\<lambda>nc. side_dispatch add e rj (fst nc) (snd nc)) (side_matched e bc) (False, f, jac)"
  unfolding side_dispatch_loop_def side_matched_def for_each_concat for_each_map
  by (rule for_each_cong) (simp add: for_each_concat for_each_map for_each_map_fun)

text \<open>
  A loop whose body hands an item to its handler while the flag is false, takes the
  handler's result as the new state, and leaves a state with the flag true alone.
\<close>

lemma dispatch_flag_stays:
  assumes run: "for_each step xs (True, f, jac) = Inr s'"
    and skip: "\<And>x f jac t. x \<in> set xs \<Longrightarrow> step x (True, f, jac) = Inr t \<Longrightarrow> t = (True, f, jac)"
  shows "s' = (True, f, jac)"
  using run
proof (rule for_each_invariant [where P = "\<lambda>s. s = (True, f, jac)"])
  show "(True, f, jac) = (True, f, jac)" ..
next
  fix x t t' assume "x \<in> set xs" "t = (True, f, jac)" "step x t = Inr t'"
  then show "t' = (True, f, jac)" using skip [of x f jac t'] by simp
qed

lemma dispatch_flag:
  assumes run: "for_each step xs (False, f, jac) = Inr (cj, f', jac')"
    and call: "\<And>x f jac r. x \<in> set xs \<Longrightarrow> h x f jac = Some r \<Longrightarrow> step x (False, f, jac) = r"
    and none: "\<And>x f jac t. x \<in> set xs \<Longrightarrow> h x f jac = None \<Longrightarrow>
                 step x (False, f, jac) = Inr t \<Longrightarrow> t = (False, f, jac)"
    and skip: "\<And>x f jac t. x \<in> set xs \<Longrightarrow> step x (True, f, jac) = Inr t \<Longrightarrow> t = (True, f, jac)"
  shows "cj = some_handler_reported h xs f jac"
  using run call none skip
proof (induction xs arbitrary: f jac)
  case Nil
  then show ?case by (simp add: some_handler_reported_def)
next
  case (Cons x xs)
  from Cons.prems(1) obtain t where t: "step x (False, f, jac) = Inr t"
    and rest: "for_each step xs t = Inr (cj, f', jac')"
    by (auto simp add: bind_res_Inr_iff)
  have call': "step y (False, g, j) = r" if "y \<in> set xs" "h y g j = Some r" for y g j r
    using Cons.prems(2) [of y g j r] that by simp
  have none': "u = (False, g, j)"
    if "y \<in> set xs" "h y g j = None" "step y (False, g, j) = Inr u" for y g j u
    using Cons.prems(3) [of y g j u] that by simp
  have skip': "u = (True, g, j)" if "y \<in> set xs" "step y (True, g, j) = Inr u" for y g j u
    using Cons.prems(4) [of y g j u] that by simp
  show ?case
  proof (cases "h x f jac")
    case None
    then have "t = (False, f, jac)" using Cons.prems(3) [of x f jac t] t by simp
    then have "cj = some_handler_reported h xs f jac"
      using Cons.IH [of f jac] rest call' none' skip' by blast
    then show ?thesis using None by (simp add: some_handler_reported_def)
  next
    case (Some r)
    then have r: "r = Inr t" using Cons.prems(2) [of x f jac r] t by simp
    show ?thesis
    proof (cases "fst t")
      case True
      then have "t = (True, fst (snd t), snd (snd t))" by (cases t) simp
      then have "for_each step xs (True, fst (snd t), snd (snd t)) = Inr (cj, f', jac')"
        using rest by simp
      then have "(cj, f', jac') = (True, fst (snd t), snd (snd t))"
        by (rule dispatch_flag_stays) (rule skip')
      then show ?thesis
        using Some r True by (simp add: some_handler_reported_def reports_jacobian_def)
    next
      case False
      then have "t = (False, fst (snd t), snd (snd t))" by (cases t) simp
      then have "for_each step xs (False, fst (snd t), snd (snd t)) = Inr (cj, f', jac')"
        using rest by simp
      then have "cj = some_handler_reported h xs (fst (snd t)) (snd (snd t))"
        using Cons.IH [of "fst (snd t)" "snd (snd t)"] call' none' skip' by blast
      then show ?thesis
        using Some r False by (simp add: some_handler_reported_def reports_jacobian_def)
    qed
  qed
qed

lemma side_dispatch_call:
  assumes "side_handler add e rj nc f jac = Some r"
  shows "side_dispatch add e rj (fst nc) (snd nc) (False, f, jac) = r"
  using assms
  by (cases "bc_type (snd nc)") (simp_all add: side_handler_def side_dispatch_def)

lemma side_dispatch_none:
  assumes "side_handler add e rj nc f jac = None"
    and "side_dispatch add e rj (fst nc) (snd nc) (False, f, jac) = Inr t"
  shows "t = (False, f, jac)"
  using assms
  by (cases "bc_type (snd nc)") (simp_all add: side_handler_def side_dispatch_def)

lemma side_dispatch_skip:
  assumes "side_dispatch add e rj n c (True, f, jac) = Inr t"
  shows "t = (True, f, jac)"
  using assms by (cases "bc_type c") (simp_all add: side_dispatch_def)

lemma volume_dispatch_call:
  assumes "volume_handler add e rj c f jac = Some r"
  shows "volume_dispatch add e rj c (False, f, jac) = r"
  using assms
  by (cases "bc_type c") (simp_all add: volume_handler_def volume_dispatch_def)

lemma volume_dispatch_none:
  assumes "volume_handler add e rj c f jac = None"
    and "volume_dispatch add e rj c (False, f, jac) = Inr t"
  shows "t = (False, f, jac)"
  using assms
  by (cases "bc_type c") (simp_all add: volume_handler_def volume_dispatch_def)

lemma volume_dispatch_skip:
  assumes "volume_dispatch add e rj c (True, f, jac) = Inr t"
  shows "t = (True, f, jac)"
  using assms by (cases "bc_type c") (simp_all add: volume_dispatch_def)

text \<open>
  Claim C1, as stated, fails: with the Jacobian requested and no condition registered, the
  accumulated flag is false, so the flag or-ed with the request is true, but
  \<^verbatim>\<open>side_external_residual\<close> returns false.
\<close>

theorem external_residual_return_counterexample:
  "side_external_residual vec_add True (zero_vec 6) (zero_mat 6 6) []
     (example_element 2 quarter_turn False False) \<noteq>
   external_residual_return_spec True
     (side_dispatch_loop vec_add True (zero_vec 6) (zero_mat 6 6) []
        (example_element 2 quarter_turn False False))"
  by (simp add: side_external_residual_def external_residual_return_spec_def
      side_dispatch_loop_def equal_range_def)

text \<open>
  Claim C1, amended. Whenever a dispatch (side-based or subdomain-based) returns, the
  boolean returned equals the flag "some dispatched handler reported a Jacobian
  contribution" and-ed with the caller's request: \<^verbatim>\<open>return (request_jacobian && calculate_jac)\<close>.
\<close>

theorem external_residual_return:
  "(side_external_residual add rj f jac bc e = Inr (b, f', jac') \<longrightarrow>
      b = (rj \<and> some_handler_reported (side_handler add e rj) (side_matched e bc) f jac)) \<and>
   (volume_external_residual add rj f jac bc e = Inr (b, f', jac') \<longrightarrow>
      b = (rj \<and> some_handler_reported (volume_handler add e rj)
                   (equal_range bc (subdomain_id e)) f jac))"
proof (intro conjI impI)
  assume "side_external_residual add rj f jac bc e = Inr (b, f', jac')"
  then obtain cj where l: "side_dispatch_loop add rj f jac bc e = Inr (cj, f', jac')"
    and b: "b = (rj \<and> cj)"
    by (auto simp add: side_external_residual_def bind_res_Inr_iff)
  have "cj = some_handler_reported (side_handler add e rj) (side_matched e bc) f jac"
    using l [unfolded side_dispatch_loop_flat]
  proof (rule dispatch_flag)
    fix nc g j r assume "side_handler add e rj nc g j = Some r"
    then show "side_dispatch add e rj (fst nc) (snd nc) (False, g, j) = r"
      by (rule side_dispatch_call)
  next
    fix nc g j t
    assume "side_handler add e rj nc g j = None"
      "side_dispatch add e rj (fst nc) (snd nc) (False, g, j) = Inr t"
    then show "t = (False, g, j)" by (rule side_dispatch_none)
  next
    fix nc g j t assume "side_dispatch add e rj (fst nc) (snd nc) (True, g, j) = Inr t"
    then show "t = (True, g, j)" by (rule side_dispatch_skip)
  qed
  with b show "b = (rj \<and> some_handler_reported (side_handler add e rj) (side_matched e bc) f jac)"
    by simp
next
  assume "volume_external_residual add rj f jac bc e = Inr (b, f', jac')"
  then obtain cj where l: "volume_dispatch_loop add rj f jac bc e = Inr (cj, f', jac')"
    and b: "b = (rj \<and> cj)"
    by (auto simp add: volume_external_residual_def bind_res_Inr_iff)
  have "cj = some_handler_reported (volume_handler add e rj) (equal_range bc (subdomain_id e)) f jac"
    using l [unfolded volume_dispatch_loop_def]
  proof (rule dispatch_flag)
    fix c g j r assume "volume_handler add e rj c g j = Some r"
    then show "volume_dispatch add e rj c (False, g, j) = r" by (rule volume_dispatch_call)
  next
    fix c g j t
    assume "volume_handler add e rj c g j = None" "volume_dispatch add e rj c (False, g, j) = Inr t"
    then show "t = (False, g, j)" by (rule volume_dispatch_none)
  next
    fix c g j t assume "volume_dispatch add e rj c (True, g, j) = Inr t"
    then show "t = (True, g, j)" by (rule volume_dispatch_skip)
  qed
  with b show "b = (rj \<and> some_handler_reported (volume_handler add e rj)
                   (equal_range bc (subdomain_id e)) f jac)"
    by simp
qed

theorem external_residual_return_witness:
  "side_external_residual vec_add True (zero_vec 6) (zero_mat 6 6) [(7, example_bc DIRICHLET)]
     (example_element 2 quarter_turn False False) = Inr (False, zero_vec 6, zero_mat 6 6) \<and>
   False = (True \<and> some_handler_reported
              (side_handler vec_add (example_element 2 quarter_turn False False) True)
              (side_matched (example_element 2 quarter_turn False False)
                 [(7, example_bc DIRICHLET)]) (zero_vec 6) (zero_mat 6 6)) \<and>
   volume_external_residual vec_add True (zero_vec 6) (zero_mat 6 6) [(3, example_bc TEMPERATURE)]
     ((example_element 2 quarter_turn False False)
        \<lparr>thermal_residual := (\<lambda>rj f jac bc. Inr (rj, f, jac))\<rparr>) =
     Inr (True, zero_vec 6, zero_mat 6 6) \<and>
   True = (True \<and> some_handler_reported
             (volume_handler vec_add ((example_element 2 quarter_turn False False)
                \<lparr>thermal_residual := (\<lambda>rj f jac bc. Inr (rj, f, jac))\<rparr>) True)
             (equal_range [(3, example_bc TEMPERATURE)]
                (subdomain_id ((example_element 2 quarter_turn False False)
                   \<lparr>thermal_residual := (\<lambda>rj f jac bc. Inr (rj, f, jac))\<rparr>)))
             (zero_vec 6) (zero_mat 6 6)) \<and>
   volume_external_residual vec_add False (zero_vec 6) (zero_mat 6 6) [(3, example_bc TEMPERATURE)]
     ((example_element 2 quarter_turn False False)
        \<lparr>thermal_residual := (\<lambda>rj f jac bc. Inr (True, f, jac))\<rparr>) =
     Inr (False, zero_vec 6, zero_mat 6 6)"
proof -
  let ?e = "example_element 2 quarter_turn False False"
  let ?e1 = "?e\<lparr>thermal_residual := (\<lambda>rj f jac bc. Inr (rj, f, jac))\<rparr>"
  let ?e2 = "?e\<lparr>thermal_residual := (\<lambda>rj f jac bc. Inr (True, f, jac))\<rparr>"
  have h1: "side_external_residual vec_add True (zero_vec 6) (zero_mat 6 6)
      [(7, example_bc DIRICHLET)] ?e = Inr (False, zero_vec 6, zero_mat 6 6)"
    by (simp add: side_external_residual_def side_dispatch_loop_def equal_range_def
        side_dispatch_def)
  have h2: "volume_external_residual vec_add True (zero_vec 6) (zero_mat 6 6)
      [(3, example_bc TEMPERATURE)] ?e1 = Inr (True, zero_vec 6, zero_mat 6 6)"
    by (simp add: volume_external_residual_def volume_dispatch_loop_def equal_range_def
        volume_dispatch_def example_element_def)
  have h3: "volume_external_residual vec_add False (zero_vec 6) (zero_mat 6 6)
      [(3, example_bc TEMPERATURE)] ?e2 = Inr (False, zero_vec 6, zero_mat 6 6)"
    by (simp add: volume_external_residual_def volume_dispatch_loop_def equal_range_def
        volume_dispatch_def example_element_def)
  show ?thesis
    using h1 h2 h3
      external_residual_return [of vec_add True "zero_vec 6" "zero_mat 6 6"
        "[(7, example_bc DIRICHLET)]" ?e False "zero_vec 6" "zero_mat 6 6", THEN conjunct1]
      external_residual_return [of vec_add True "zero_vec 6" "zero_mat 6 6"
        "[(3, example_bc TEMPERATURE)]" ?e1 True "zero_vec 6" "zero_mat 6 6", THEN conjunct2]
    by simp
qed

subsection \<open>Zero pressure\<close>

lemma shape_values_fill:
  assumes "\<And>i. i \<in> set is \<Longrightarrow> i < length phi \<and> qp < length (phi ! i)"
    and "length pv = length phi"
  shows "\<exists>pv'. for_each (\<lambda>i_nd pv.
             bind_res (nth_checked (phi ! i_nd) qp) (\<lambda>x.
               if i_nd < length pv then Inr (pv[i_nd := x]) else Inl IndexOutOfRange)) is pv = Inr pv'
           \<and> length pv' = length phi"
  using assms
proof (induction "is" arbitrary: pv)
  case Nil
  then show ?case by simp
next
  case (Cons a "is")
  have a: "a < length phi" "qp < length (phi ! a)" using Cons.prems(1) by simp_all
  have "length (pv[a := phi ! a ! qp]) = length phi" using Cons.prems(2) by simp
  then obtain pv' where "for_each (\<lambda>i_nd pv.
             bind_res (nth_checked (phi ! i_nd) qp) (\<lambda>x.
               if i_nd < length pv then Inr (pv[i_nd := x]) else Inl IndexOutOfRange)) is
             (pv[a := phi ! a ! qp]) = Inr pv'" "length pv' = length phi"
    using Cons.IH [of "pv[a := phi ! a ! qp]"] Cons.prems(1) by auto
  then show ?case using a Cons.prems(2) by simp
qed

lemma shape_values_ok:
  assumes "\<forall>row\<in>set phi. qp < length row" and "length buf = length phi"
  shows "\<exists>pv. shape_values buf phi qp = Inr pv \<and> length pv = length phi"
  unfolding shape_values_def
  by (rule shape_values_fill) (use assms in auto)

lemma pressure_force_zero: "pressure_force 0 normal = zero_vec 6"
  by (simp add: pressure_force_def upt3 zero_vec_def numeral_eq_Suc)

lemma concat_zero_blocks:
  "concat (map (\<lambda>i. replicate n (0::'v::zero)) [0..<m]) = replicate (m * n) 0"
  by (induction m) (simp_all add: replicate_add [symmetric] add.commute)

lemma vector_mult_transpose_zero:
  "vector_mult_transpose (reinit 6 pv) (zero_vec 6 :: 'v::real_vector list) =
     Inr (zero_vec (6 * length pv))"
proof -
  have "map (\<lambda>p. scaleR p (zero_vec 6 ! i :: 'v)) pv = replicate (length pv) 0"
    if "i \<in> set [0..<6]" for i
    using that by (simp add: map_replicate_const)
  then have m: "map (\<lambda>i. map (\<lambda>p. scaleR p (zero_vec 6 ! i :: 'v)) pv) [0..<6] =
        map (\<lambda>i. replicate (length pv) 0) [0..<6]"
    by (intro map_ext impI)
  have "vector_mult_transpose (reinit 6 pv) (zero_vec 6 :: 'v list) =
          Inr (replicate (6 * length pv) 0)"
    by (simp add: vector_mult_transpose_def reinit_def m concat_zero_blocks)
  then show ?thesis by (simp add: zero_vec_def)
qed

lemma vec_add_zero:
  fixes u :: "'v::real_vector list"
  assumes "length u = n"
  shows "vec_add u (vec_scale w (zero_vec n)) = Inr u" "vec_add u (zero_vec n) = Inr u"
proof -
  have "map (\<lambda>(x, y). x + y) (zip u (replicate n 0)) = u"
    using assms by (intro nth_equalityI) simp_all
  then show "vec_add u (vec_scale w (zero_vec n)) = Inr u" "vec_add u (zero_vec n) = Inr u"
    using assms by (simp_all add: vec_add_def vec_scale_def zero_vec_def)
qed

lemma surface_pressure_qp_zero:
  assumes qc: "quadrature_consistent fd" and qp: "qp < length (get_xyz fd)"
    and nrm: "normal_at qp = Inr normal"
    and z: "func (global_coordinates_location e (get_xyz fd ! qp)) (time e) = 0"
    and len: "length local_f = 6 * length (get_phi fd)"
  shows "surface_pressure_qp e fd normal_at func qp local_f = Inr local_f"
proof -
  have "\<forall>row\<in>set (get_phi fd). qp < length row"
    using qc qp by (simp add: quadrature_consistent_def)
  then obtain pv where pv: "shape_values (zero_vec (length (get_phi fd))) (get_phi fd) qp = Inr pv"
    "length pv = length (get_phi fd)"
    using shape_values_ok [of "get_phi fd" qp "zero_vec (length (get_phi fd))"] by auto
  have w: "qp < length (get_JxW fd)" using qc qp by (simp add: quadrature_consistent_def)
  show ?thesis
    using qp pv w nrm z len
    by (simp add: surface_pressure_qp_def pressure_force_zero vector_mult_transpose_zero
        vec_add_zero)
qed

lemma surface_pressure_loop_zero:
  assumes qc: "quadrature_consistent fd"
    and nrm: "\<And>qp. qp < length (get_xyz fd) \<Longrightarrow> normal_at qp = Inr (normal_of qp)"
    and z: "\<And>x. x \<in> set (get_xyz fd) \<Longrightarrow> func (global_coordinates_location e x) (time e) = 0"
    and len: "length local_f = 6 * length (get_phi fd)"
  shows "for_each (surface_pressure_qp e fd normal_at func) [0..<length (get_xyz fd)] local_f =
           Inr local_f"
proof (rule for_each_fixed)
  fix qp assume "qp \<in> set [0..<length (get_xyz fd)]"
  then have qp: "qp < length (get_xyz fd)" by simp
  have n: "normal_at qp = Inr (normal_of qp)" by (rule nrm [OF qp])
  show "surface_pressure_qp e fd normal_at func qp local_f = Inr local_f"
    using surface_pressure_qp_zero [of fd qp normal_at "normal_of qp" func e local_f] qc qp n z len
    by auto
qed


lemma mat_vec_mult_zero:
  assumes "cols m = n"
  shows "mat_vec_mult m (zero_vec n :: 'v::real_vector list) = Inr (zero_vec (rows m))"
proof -
  have "(\<Sum>j<n. scaleR (coeff m i j) (zero_vec n ! j :: 'v)) = 0" for i
    by (rule sum.neutral) simp
  then show ?thesis
    using assms by (simp add: mat_vec_mult_def zero_vec_def map_replicate_const)
qed

lemma transform_to_global_zero:
  assumes "n = 6 * n_shape_functions (fe e)" "length buf = n"
  shows "transform_vector_to_global_system e (zero_vec n :: 'v::real_vector list) buf =
           Inr (zero_vec n)"
  using assms
  by (simp add: transform_vector_to_global_system_def mat_vec_mult_zero)

lemma assumed_normal_Inr:
  assumes "d < 3"
  shows "assumed_normal d =
           Inr (if d = 0 then (- 1, 0, 0) else if d = 1 then (0, - 1, 0) else (0, 0, - 1))"
  using assms by (auto simp add: assumed_normal_def)

lemma zero_pressure_residual_returns:
  assumes nf: "assertions_enabled e \<longrightarrow> \<not> follower_forces e"
    and len: "length f = 6 * length (get_phi fd)"
    and qc: "quadrature_consistent fd"
    and p: "pressure bc = Some func"
    and z: "\<forall>x\<in>set (get_xyz fd). func (global_coordinates_location e x) (time e) = 0"
  shows "(fd = side_fe e side \<and> length (get_normals fd) = length (get_xyz fd) \<and>
          (elem_dim e < 3 \<longrightarrow> length (get_phi fd) = n_shape_functions (fe e)) \<longrightarrow>
            surface_pressure_residual_side request_jacobian f jac side bc e =
              Inr (request_jacobian \<and> follower_forces e, f, jac)) \<and>
         (fd = fe e \<and> elem_dim e < 3 \<and> length (get_phi fd) = n_shape_functions (fe e) \<longrightarrow>
            surface_pressure_residual request_jacobian f jac bc e =
              Inr (request_jacobian \<and> follower_forces e, f, jac))"
proof (intro conjI impI)
  let ?n2 = "6 * length (get_phi fd)"
  assume a: "fd = side_fe e side \<and> length (get_normals fd) = length (get_xyz fd) \<and>
          (elem_dim e < 3 \<longrightarrow> length (get_phi fd) = n_shape_functions (fe e))"
  then have fd: "fd = side_fe e side" and nl: "length (get_normals fd) = length (get_xyz fd)"
    and np: "elem_dim e < 3 \<Longrightarrow> length (get_phi fd) = n_shape_functions (fe e)"
    by blast+
  have as: "libmesh_assert (assertions_enabled e) (\<not> follower_forces e) = Inr ()"
    using nf by (simp add: libmesh_assert_def)
  have loop: "for_each (surface_pressure_qp e fd (nth_checked (get_normals fd)) func)
          [0..<length (get_xyz fd)] (zero_vec ?n2) = Inr (zero_vec ?n2)"
    by (rule surface_pressure_loop_zero [OF qc, where normal_of = "\<lambda>qp. get_normals fd ! qp"])
      (use nl z in simp_all)
  have tr: "transform_vector_to_global_system e (zero_vec ?n2 :: real list) (zero_vec ?n2) =
              Inr (zero_vec ?n2)" if "elem_dim e < 3"
    by (rule transform_to_global_zero) (use np that in simp_all)
  show "surface_pressure_residual_side request_jacobian f jac side bc e =
          Inr (request_jacobian \<and> follower_forces e, f, jac)"
    using fd as p loop tr len
    by (simp add: surface_pressure_residual_side_def get_field_def vec_add_zero Let_def)
next
  let ?n2 = "6 * length (get_phi fd)"
  let ?normal = "if elem_dim e = 0 then (- 1, 0, 0) else if elem_dim e = 1 then (0, - 1, 0)
                 else (0, 0, - 1) :: point"
  assume a: "fd = fe e \<and> elem_dim e < 3 \<and> length (get_phi fd) = n_shape_functions (fe e)"
  then have fd: "fd = fe e" and d: "elem_dim e < 3"
    and np: "length (get_phi fd) = n_shape_functions (fe e)"
    by blast+
  have as: "libmesh_assert (assertions_enabled e) (\<not> follower_forces e) = Inr ()"
    using nf by (simp add: libmesh_assert_def)
  have nrm: "assumed_normal (elem_dim e) = Inr ?normal"
    by (rule assumed_normal_Inr [OF d])
  have loop: "for_each (surface_pressure_qp e fd (\<lambda>qp. Inr ?normal) func)
          [0..<length (get_xyz fd)] (zero_vec ?n2) = Inr (zero_vec ?n2)"
    by (rule surface_pressure_loop_zero [OF qc, where normal_of = "\<lambda>qp. ?normal"])
      (use z in simp_all)
  have tr: "transform_vector_to_global_system e (zero_vec ?n2 :: real list) (zero_vec ?n2) =
              Inr (zero_vec ?n2)"
    by (rule transform_to_global_zero) (use np in simp_all)
  show "surface_pressure_residual request_jacobian f jac bc e =
          Inr (request_jacobian \<and> follower_forces e, f, jac)"
    using fd d as p loop tr len
    by (simp add: surface_pressure_residual_def get_field_def vec_add_zero Let_def nrm)
qed

lemma nth_checked_Inr_iff: "nth_checked xs i = Inr x \<longleftrightarrow> i < length xs \<and> x = xs ! i"
  by (auto simp add: nth_checked_def)

lemma vec_add_zero_Inr:
  fixes u :: "'v::real_vector list"
  assumes "vec_add u (vec_scale w (zero_vec n)) = Inr r \<or> vec_add u (zero_vec n) = Inr r"
  shows "r = u"
proof -
  from assms have len: "length u = n"
    by (auto simp add: vec_add_def vec_scale_def split: if_splits)
  show ?thesis using assms vec_add_zero [OF len] by auto
qed

lemma surface_pressure_qp_zero_Inr:
  assumes "surface_pressure_qp e fd normal_at func qp local_f = Inr r"
    and z: "\<forall>x\<in>set (get_xyz fd). func (global_coordinates_location e x) (time e) = 0"
  shows "r = local_f"
proof -
  have d: "r = local_f" if "vec_add local_f (vec_scale w (zero_vec n)) = Inr r" for w n
    using that vec_add_zero_Inr [of local_f w n r] by simp
  from assms(1) z show ?thesis
    by (auto simp add: surface_pressure_qp_def bind_res_Inr_iff nth_checked_Inr_iff Let_def
        pressure_force_zero vector_mult_transpose_zero dest: d)
qed

lemma surface_pressure_loop_zero_Inr:
  assumes "for_each (surface_pressure_qp e fd normal_at func) qps local_f = Inr r"
    and z: "\<forall>x\<in>set (get_xyz fd). func (global_coordinates_location e x) (time e) = 0"
  shows "r = local_f"
  using assms(1)
proof (rule for_each_invariant [where P = "\<lambda>s. s = local_f"])
  show "local_f = local_f" ..
next
  fix qp t t' assume "t = local_f" "surface_pressure_qp e fd normal_at func qp t = Inr t'"
  then show "t' = local_f"
    using surface_pressure_qp_zero_Inr [of e fd normal_at func qp local_f t'] z by blast
qed

lemma mat_vec_mult_zero_Inr:
  assumes "mat_vec_mult m (zero_vec n :: 'v::real_vector list) = Inr r"
  shows "r = zero_vec (rows m)"
proof -
  from assms have "cols m = n" by (auto simp add: mat_vec_mult_def split: if_splits)
  then have "mat_vec_mult m (zero_vec n :: 'v list) = Inr (zero_vec (rows m))"
    by (rule mat_vec_mult_zero)
  then show ?thesis using assms by simp
qed

lemma transform_to_global_zero_Inr:
  assumes "transform_vector_to_global_system e (zero_vec n :: 'v::real_vector list) buf = Inr r"
  shows "\<exists>k. r = zero_vec k"
  using assms mat_vec_mult_zero_Inr
  by (fastforce simp add: transform_vector_to_global_system_def bind_res_Inr_iff)

lemma zero_pressure_residual_side_Inr:
  assumes r: "surface_pressure_residual_side request_jacobian f jac side bc e = Inr (b, f', jac')"
    and p: "pressure bc = Some func"
    and z: "\<forall>x\<in>set (get_xyz (side_fe e side)). func (global_coordinates_location e x) (time e) = 0"
  shows "f' = f \<and> jac' = jac"
proof -
  let ?fd = "side_fe e side"
  let ?n2 = "6 * length (get_phi ?fd)"
  from r p obtain local_f where
    l: "for_each (surface_pressure_qp e ?fd (nth_checked (get_normals ?fd)) func)
          [0..<length (get_xyz ?fd)] (zero_vec ?n2) = Inr local_f"
    and a: "(if elem_dim e < 3
             then bind_res (transform_vector_to_global_system e local_f (zero_vec ?n2))
                    (\<lambda>vec_n2. vec_add f vec_n2)
             else vec_add f local_f) = Inr f'"
    and j: "jac' = jac"
    by (auto simp add: surface_pressure_residual_side_def bind_res_Inr_iff get_field_def Let_def)
  have lz: "local_f = zero_vec ?n2" by (rule surface_pressure_loop_zero_Inr [OF l z])
  have "\<exists>k. vec_add f (zero_vec k) = Inr f'"
  proof (cases "elem_dim e < 3")
    case True
    then obtain v where "transform_vector_to_global_system e (zero_vec ?n2 :: real list) (zero_vec ?n2) = Inr v"
      "vec_add f v = Inr f'"
      using a lz by (auto simp add: bind_res_Inr_iff)
    then show ?thesis using transform_to_global_zero_Inr by blast
  next
    case False
    then show ?thesis using a lz by auto
  qed
  then have "f' = f" using vec_add_zero_Inr by blast
  then show ?thesis using j by simp
qed

lemma zero_pressure_residual_Inr:
  assumes r: "surface_pressure_residual request_jacobian f jac bc e = Inr (b, f', jac')"
    and p: "pressure bc = Some func"
    and z: "\<forall>x\<in>set (get_xyz (fe e)). func (global_coordinates_location e x) (time e) = 0"
  shows "f' = f \<and> jac' = jac"
proof -
  let ?fd = "fe e"
  let ?n2 = "6 * length (get_phi ?fd)"
  obtain normal where n: "assumed_normal (elem_dim e) = Inr normal"
    using r by (cases "assumed_normal (elem_dim e)")
      (simp_all add: surface_pressure_residual_def bind_res_def Let_def split: sum.splits)
  from r p n obtain local_f v where
    l: "for_each (surface_pressure_qp e ?fd (\<lambda>qp. Inr normal) func)
          [0..<length (get_xyz ?fd)] (zero_vec ?n2) = Inr local_f"
    and t: "transform_vector_to_global_system e local_f (zero_vec ?n2) = Inr v"
    and a: "vec_add f v = Inr f'"
    and j: "jac' = jac"
    by (auto simp add: surface_pressure_residual_def bind_res_Inr_iff get_field_def Let_def)
  have lz: "local_f = zero_vec ?n2" by (rule surface_pressure_loop_zero_Inr [OF l z])
  obtain k where "v = zero_vec k" using t lz transform_to_global_zero_Inr by blast
  then have "f' = f" using a vec_add_zero_Inr by blast
  then show ?thesis using j by simp
qed

text \<open>
  Claim C9. Let the pressure field function be zero at every quadrature point the routine
  evaluates it at. Then each steady surface-pressure routine (side variant and
  whole-element variant), whenever it returns, returns \<^verbatim>\<open>f\<close> and \<^verbatim>\<open>jac\<close> unchanged; and it does
  return, with the flag false, when follower forces are off, the quadrature data are
  consistent and \<^verbatim>\<open>f\<close> has the length of the element's degrees of freedom.
\<close>

theorem zero_pressure_residual:
  assumes p: "pressure bc = Some func"
    and z: "\<forall>x\<in>set (get_xyz fd). func (global_coordinates_location e x) (time e) = 0"
  shows "(fd = side_fe e side \<longrightarrow>
            (\<forall>b f' jac'.
               surface_pressure_residual_side request_jacobian f jac side bc e = Inr (b, f', jac') \<longrightarrow>
               f' = f \<and> jac' = jac) \<and>
            (\<not> follower_forces e \<and> length f = 6 * length (get_phi fd) \<and>
             quadrature_consistent fd \<and> length (get_normals fd) = length (get_xyz fd) \<and>
             (elem_dim e < 3 \<longrightarrow> length (get_phi fd) = n_shape_functions (fe e)) \<longrightarrow>
               surface_pressure_residual_side request_jacobian f jac side bc e =
                 Inr (False, f, jac))) \<and>
         (fd = fe e \<longrightarrow>
            (\<forall>b f' jac'.
               surface_pressure_residual request_jacobian f jac bc e = Inr (b, f', jac') \<longrightarrow>
               f' = f \<and> jac' = jac) \<and>
            (\<not> follower_forces e \<and> length f = 6 * length (get_phi fd) \<and>
             quadrature_consistent fd \<and> elem_dim e < 3 \<and>
             length (get_phi fd) = n_shape_functions (fe e) \<longrightarrow>
               surface_pressure_residual request_jacobian f jac bc e = Inr (False, f, jac)))"
proof (intro conjI impI allI)
  fix b f' jac'
  assume "fd = side_fe e side"
    "surface_pressure_residual_side request_jacobian f jac side bc e = Inr (b, f', jac')"
  then show "f' = f" "jac' = jac"
    using zero_pressure_residual_side_Inr [of request_jacobian f jac side bc e b f' jac' func] p z
    by simp_all
next
  assume "fd = side_fe e side"
    "\<not> follower_forces e \<and> length f = 6 * length (get_phi fd) \<and>
     quadrature_consistent fd \<and> length (get_normals fd) = length (get_xyz fd) \<and>
     (elem_dim e < 3 \<longrightarrow> length (get_phi fd) = n_shape_functions (fe e))"
  then show "surface_pressure_residual_side request_jacobian f jac side bc e = Inr (False, f, jac)"
    using zero_pressure_residual_returns [where e = e and f = f and fd = fd and bc = bc
        and func = func and side = side and request_jacobian = request_jacobian and jac = jac] p z
    by simp
next
  fix b f' jac'
  assume "fd = fe e"
    "surface_pressure_residual request_jacobian f jac bc e = Inr (b, f', jac')"
  then show "f' = f" "jac' = jac"
    using zero_pressure_residual_Inr [of request_jacobian f jac bc e b f' jac' func] p z
    by simp_all
next
  assume "fd = fe e"
    "\<not> follower_forces e \<and> length f = 6 * length (get_phi fd) \<and>
     quadrature_consistent fd \<and> elem_dim e < 3 \<and>
     length (get_phi fd) = n_shape_functions (fe e)"
  then show "surface_pressure_residual request_jacobian f jac bc e = Inr (False, f, jac)"
    using zero_pressure_residual_returns [where e = e and f = f and fd = fd and bc = bc
        and func = func and side = side and request_jacobian = request_jacobian and jac = jac] p z
    by simp
qed

theorem zero_pressure_residual_witness:
  "surface_pressure_residual_side True [1, 2, 3, 4, 5, 6] (zero_mat 6 6) 0
     (example_bc SURFACE_PRESSURE) (example_element 2 quarter_turn False False) =
     Inr (False, [1, 2, 3, 4, 5, 6], zero_mat 6 6) \<and>
   surface_pressure_residual True [1, 2, 3, 4, 5, 6] (zero_mat 6 6)
     (example_bc SURFACE_PRESSURE) (example_element 2 quarter_turn False False) =
     Inr (False, [1, 2, 3, 4, 5, 6], zero_mat 6 6)"
  using zero_pressure_residual [of "example_bc SURFACE_PRESSURE" "\<lambda>p t. 0" example_fe
      "example_element 2 quarter_turn False False" 0 True "[1, 2, 3, 4, 5, 6]" "zero_mat 6 6"]
  by (simp add: example_element_def example_fe_def example_bc_def quadrature_consistent_def)

subsection \<open>Lumped mass\<close>

lemma lumped_hit_closed:
  "(\<exists>i_var\<in>set [0..<6]. \<exists>i\<in>set [0..<nshp]. r = i_var * nshp + i \<and> c = i_var * nshp + i) \<longleftrightarrow>
     (r = c \<and> r < 6 * nshp)"
proof
  assume "\<exists>i_var\<in>set [0..<6]. \<exists>i\<in>set [0..<nshp]. r = i_var * nshp + i \<and> c = i_var * nshp + i"
  then obtain i_var i where h: "i_var < 6" "i < nshp" "r = i_var * nshp + i" "c = i_var * nshp + i"
    by auto
  have "i_var * nshp + i < Suc i_var * nshp" using h(2) by simp
  also have "\<dots> \<le> 6 * nshp" using h(1) by (intro mult_le_mono1) simp
  finally show "r = c \<and> r < 6 * nshp" using h by simp
next
  assume a: "r = c \<and> r < 6 * nshp"
  then have n: "0 < nshp" by (cases nshp) simp_all
  have "r div nshp < 6" using a n by (simp add: less_mult_imp_div_less mult.commute)
  moreover have "r mod nshp < nshp" using n by simp
  moreover have "r = r div nshp * nshp + r mod nshp" by simp
  ultimately show "\<exists>i_var\<in>set [0..<6]. \<exists>i\<in>set [0..<nshp]. r = i_var * nshp + i \<and> c = i_var * nshp + i"
    using a by (metis atLeastLessThan_iff set_upt zero_le)
qed

lemma coeff_lumped_mass_matrix:
  "coeff (lumped_mass_matrix n2 nshp vol material_mat) r c =
     (if r = c \<and> r < 6 * nshp
      then vol * coeff material_mat (r div nshp) (r div nshp) else 0)"
proof -
  let ?F = "\<lambda>r c. vol * coeff material_mat (r div nshp) (r div nshp)"
  have step: "coeff (mat_set m (i_var * nshp + i) (i_var * nshp + i)
                 (vol * coeff material_mat i_var i_var)) r c =
      (if r = i_var * nshp + i \<and> c = i_var * nshp + i then ?F r c else coeff m r c)"
    if "i \<in> set [0..<nshp]" for i_var i m r c
    using that by (auto simp add: mat_set_def)
  have inner: "coeff (fold (\<lambda>i m. mat_set m (i_var * nshp + i) (i_var * nshp + i)
                 (vol * coeff material_mat i_var i_var)) [0..<nshp] m) r c =
      (if \<exists>i\<in>set [0..<nshp]. r = i_var * nshp + i \<and> c = i_var * nshp + i
       then ?F r c else coeff m r c)" for i_var m r c
    by (rule coeff_fold_hit) (rule step)
  have outer: "coeff (fold (\<lambda>i_var. fold (\<lambda>i m. mat_set m (i_var * nshp + i) (i_var * nshp + i)
                 (vol * coeff material_mat i_var i_var)) [0..<nshp]) [0..<6] m) r c =
      (if \<exists>i_var\<in>set [0..<6]. \<exists>i\<in>set [0..<nshp]. r = i_var * nshp + i \<and> c = i_var * nshp + i
       then ?F r c else coeff m r c)" for m
    by (rule coeff_fold_hit) (rule inner)
  show ?thesis
    unfolding lumped_mass_matrix_def outer lumped_hit_closed
    by (simp add: zero_mat_def)
qed

lemma dims_fold_mat_set:
  assumes "\<And>x m. rows (step x m) = rows m \<and> cols (step x m) = cols m"
  shows "rows (fold step xs m) = rows m \<and> cols (fold step xs m) = cols m"
  using assms by (induction xs arbitrary: m) simp_all

lemma dims_lumped_mass_matrix [simp]:
  "rows (lumped_mass_matrix n2 nshp vol material_mat) = n2"
  "cols (lumped_mass_matrix n2 nshp vol material_mat) = n2"
proof -
  have "rows (lumped_mass_matrix n2 nshp vol material_mat) = n2 \<and>
        cols (lumped_mass_matrix n2 nshp vol material_mat) = n2"
    unfolding lumped_mass_matrix_def
    by (subst dims_fold_mat_set)
      (intro dims_fold_mat_set, simp_all add: mat_set_def zero_mat_def dims_fold_mat_set)
  then show "rows (lumped_mass_matrix n2 nshp vol material_mat) = n2"
    "cols (lumped_mass_matrix n2 nshp vol material_mat) = n2" by simp_all
qed

lemma diagonal_row_sum:
  fixes d :: "nat \<Rightarrow> real" and a :: "nat \<Rightarrow> real"
  assumes "r < n"
  shows "(\<Sum>j<n. scaleR (if r = j \<and> r < n then d r else 0) (a j)) = d r * a r"
proof -
  have "(\<Sum>j<n. scaleR (if r = j \<and> r < n then d r else 0) (a j)) =
        (\<Sum>j<n. if r = j then d r * a j else 0)"
    by (rule sum.cong [OF refl]) (use assms in simp)
  also have "\<dots> = d r * a r" using assms by simp
  finally show ?thesis .
qed

text \<open>
  Claim C8. With the lumped-mass flag set (on an element with at least one quadrature
  point, as many shape values as shape functions, an inertia matrix of at least six rows
  and columns and a local acceleration of the length of the degrees of freedom),
  \<^verbatim>\<open>inertial_residual\<close> evaluates the inertia function once, at the location \<open>p\<close> of the
  first quadrature point; the local mass matrix is diagonal, its entry \<open>r\<close> being
  \<open>vol\<close> (the sum of the weights \<^verbatim>\<open>JxW\<close> divided by the number of shape functions) times
  the diagonal inertia component of the variable that \<open>r\<close> belongs to; and the local force
  is this matrix times the local acceleration.
\<close>

theorem lumped_mass_inertial_residual:
  assumes lumped: "if_diagonal_mass_matrix e"
    and xyz: "get_xyz (fe e) \<noteq> []"
    and nphi: "length (get_phi (fe e)) = n_shape_functions (fe e)"
    and p: "p = global_coordinates_location e (get_xyz (fe e) ! 0)"
    and M: "M = inertia_matrix e p (time e)"
    and dims: "6 \<le> rows M" "6 \<le> cols M"
    and acc: "length (local_accel e) = 6 * n_shape_functions (fe e)"
    and nshp: "nshp = n_shape_functions (fe e)"
    and vol: "vol = sum_list (get_JxW (fe e)) / real nshp"
  shows "case inertial_local e request_jacobian of
           Inl err \<Rightarrow> False
         | Inr (local_f, local_jac, evaluated) \<Rightarrow>
             evaluated = [p] \<and>
             rows local_jac = 6 * nshp \<and> cols local_jac = 6 * nshp \<and>
             (\<forall>r<6 * nshp. \<forall>c<6 * nshp.
                coeff local_jac r c =
                  (if r = c then vol * coeff M (r div nshp) (r div nshp) else 0)) \<and>
             mat_vec_mult local_jac (local_accel e) = Inr local_f \<and>
             length local_f = 6 * nshp \<and>
             (\<forall>r<6 * nshp.
                local_f ! r = vol * coeff M (r div nshp) (r div nshp) * local_accel e ! r)"
proof -
  let ?J = "lumped_mass_matrix (6 * nshp) nshp vol M"
  let ?f = "map (\<lambda>i. \<Sum>j<6 * nshp. scaleR (coeff ?J i j) (local_accel e ! j)) [0..<6 * nshp]"
  have mv: "mat_vec_mult ?J (local_accel e) = Inr ?f"
    using acc nshp by (simp add: mat_vec_mult_def)
  have x0: "nth_checked (get_xyz (fe e)) 0 = Inr (get_xyz (fe e) ! 0)"
    using xyz by (simp add: nth_checked_def)
  have ok: "\<not> (0 < nshp \<and> (rows M < 6 \<or> cols M < 6 \<or> length (get_phi (fe e)) < nshp))"
    using dims nphi nshp by simp
  have run: "inertial_local e request_jacobian = Inr (?f, ?J, [p])"
    using lumped x0 ok mv nphi
    by (simp add: inertial_local_def Let_def p [symmetric] M [symmetric] nshp [symmetric]
        vol [symmetric])
  have fr: "?f ! r = vol * coeff M (r div nshp) (r div nshp) * local_accel e ! r"
    if "r < 6 * nshp" for r
  proof -
    have "?f ! r = (\<Sum>j<6 * nshp. scaleR (coeff ?J r j) (local_accel e ! j))"
      using that by simp
    also have "\<dots> = (\<Sum>j<6 * nshp.
        scaleR (if r = j \<and> r < 6 * nshp then vol * coeff M (r div nshp) (r div nshp) else 0)
          (local_accel e ! j))"
      by (simp only: coeff_lumped_mass_matrix)
    also have "\<dots> = vol * coeff M (r div nshp) (r div nshp) * local_accel e ! r"
      by (rule diagonal_row_sum [OF that])
    finally show ?thesis .
  qed
  show ?thesis
    unfolding run using mv fr by (simp add: coeff_lumped_mass_matrix)
qed

theorem lumped_mass_inertial_residual_witness:
  "case inertial_local (example_element 3 identity3 True False) True of
     Inl err \<Rightarrow> False
   | Inr (local_f, local_jac, evaluated) \<Rightarrow>
       evaluated = [(0, 0, 0)] \<and> rows local_jac = 6 \<and> cols local_jac = 6 \<and>
       (\<forall>r<6. \<forall>c<6. coeff local_jac r c = (if r = c then 2 else 0)) \<and>
       mat_vec_mult local_jac [1, 0, 0, 0, 0, 0] = Inr local_f \<and> length local_f = 6 \<and>
       (\<forall>r<6. local_f ! r = 2 * [1, 0, 0, 0, 0, 0] ! r)"
proof -
  let ?e = "example_element 3 identity3 True False"
  have h: "if_diagonal_mass_matrix ?e" "get_xyz (fe ?e) \<noteq> []"
    "length (get_phi (fe ?e)) = n_shape_functions (fe ?e)"
    "(0, 0, 0) = global_coordinates_location ?e (get_xyz (fe ?e) ! 0)"
    "example_inertia (0, 0, 0) 0 = inertia_matrix ?e (0, 0, 0) (time ?e)"
    "6 \<le> rows (example_inertia (0, 0, 0) 0)" "6 \<le> cols (example_inertia (0, 0, 0) 0)"
    "length (local_accel ?e) = 6 * n_shape_functions (fe ?e)"
    "1 = n_shape_functions (fe ?e)"
    "2 = sum_list (get_JxW (fe ?e)) / real 1"
    by (simp_all add: example_element_def example_fe_def example_inertia_def)
  have a: "local_accel ?e = [1, 0, 0, 0, 0, 0]"
    by (simp add: example_element_def)
  have c: "coeff (example_inertia (0, 0, 0) 0) i i = 1" for i
    by (simp add: example_inertia_def)
  show ?thesis
    using lumped_mass_inertial_residual [OF h, of True]
    by (simp add: a c split: sum.splits prod.splits)
qed

subsection \<open>Consistent mass\<close>

lemma example_consistent_step:
  assumes "qp < 2"
  shows "consistent_mass_qp (example_element 3 identity3 False False) False (a, 0, 0) qp
     ([x, 0, 0, 0, 0, 0], jac, evaluated) =
   Inr ([x + (1 + a), 0, 0, 0, 0, 0], jac, evaluated @ [(a, 0, 0)])"
proof -
  from assms have "qp = 0 \<or> qp = 1" by auto
  then show ?thesis
    by (elim disjE)
      (simp_all add: consistent_mass_qp_def example_element_def example_fe_def
        example_inertia_def shape_values_def reinit_def left_multiply_def
        right_multiply_transpose_def mat_vec_mult_def vector_mult_transpose_def vec_add_def
        vec_scale_def zero_vec_def nth_checked_def upt6 sum6 Let_def)
qed

text \<open>
  Claim C2 on a concrete element: two quadrature points at \<open>x = 0\<close> and \<open>x = 1\<close> with unit
  weights, one shape function of value 1, unit acceleration of the first degree of freedom,
  and the inertia matrix \<open>(1 + x)\<close> times the identity. The source evaluates the inertia
  at the first quadrature point in both passes (\<^verbatim>\<open>xyz[0]\<close>) and accumulates the force
  \<open>1 + 1 = 2\<close>; evaluated at each point's own location, as the claim words it, the force is
  \<open>1 + 2 = 3\<close>.
\<close>

theorem consistent_mass_evaluation_point:
  "map_sum id (\<lambda>s. (fst s, snd (snd s)))
     (inertial_local (example_element 3 identity3 False False) False) =
     Inr ([2, 0, 0, 0, 0, 0], [(0, 0, 0), (0, 0, 0)]) \<and>
   map_sum id (\<lambda>s. (fst s, snd (snd s)))
     (inertial_local_spec (example_element 3 identity3 False False) False) =
     Inr ([3, 0, 0, 0, 0, 0], [(0, 0, 0), (1, 0, 0)])"
proof -
  have e: "get_xyz (fe (example_element 3 identity3 False False)) = [(0, 0, 0), (1, 0, 0)]"
    "get_JxW (fe (example_element 3 identity3 False False)) = [1, 1]"
    "get_phi (fe (example_element 3 identity3 False False)) = [[1, 1]]"
    "if_diagonal_mass_matrix (example_element 3 identity3 False False) = False"
    by (simp_all add: example_element_def example_fe_def)
  show ?thesis
    by (simp add: inertial_local_def inertial_local_spec_def e upt2 nth_checked_def
        example_consistent_step zero_vec_def replicate6 Let_def)
qed

subsection \<open>Small-disturbance pressure\<close>

text \<open>
  The force loop itself yields \<open>press * dnormal + dpress * normal\<close> in the first three
  entries, for real and for complex values alike.
\<close>

lemma small_disturbance_force_value:
  fixes dpress :: "'v::real_vector"
  assumes "3 \<le> length dn_rot"
  shows "small_disturbance_force press dpress dn_rot normal =
     Inr [scaleR press (dn_rot ! 0) + scaleR (point_coord normal 0) dpress,
          scaleR press (dn_rot ! 1) + scaleR (point_coord normal 1) dpress,
          scaleR press (dn_rot ! 2) + scaleR (point_coord normal 2) dpress, 0, 0, 0]"
proof -
  have "0 < length dn_rot" "1 < length dn_rot" "2 < length dn_rot"
    using assms by auto
  then show ?thesis
    by (simp add: small_disturbance_force_def upt3 nth_checked_def zero_vec_def replicate6)
qed

text \<open>
  The whole-element variant never returns on an element that has a quadrature point and a
  shape function, in either build.
\<close>

lemma shape_values_unsized:
  assumes "phi \<noteq> []"
  shows "isl (shape_values [] phi qp)"
proof -
  obtain n where n: "length phi = Suc n" using assms by (cases phi) simp_all
  have b: "isl (bind_res (nth_checked (phi ! 0) qp) (\<lambda>x.
           if 0 < length ([] :: real list) then Inr ([][0 := x]) else Inl IndexOutOfRange))"
    by (cases "nth_checked (phi ! 0) qp") simp_all
  show ?thesis
    unfolding shape_values_def n upt_conv_Cons [OF zero_less_Suc] for_each.simps
    by (rule isl_bind_res) (rule b)
qed

lemma small_disturbance_element_variant_fails:
  assumes "get_xyz (fe e) \<noteq> []" and "get_phi (fe e) \<noteq> []"
  shows "isl (small_disturbance_surface_pressure_residual add request_jacobian f jac bc e)"
proof -
  obtain n where n: "length (get_xyz (fe e)) = Suc n"
    using assms(1) by (cases "get_xyz (fe e)") simp_all
  have first: "isl (small_disturbance_qp e (fe e) [] normal_at press_fn dpress_fn dn_rot_fn 0 s)"
    for normal_at press_fn and dpress_fn :: "point \<Rightarrow> real \<Rightarrow> 'a" and dn_rot_fn s
    using assms(1) shape_values_unsized [OF assms(2), of 0]
    by (simp add: small_disturbance_qp_def Let_def isl_bind_res)
  have loop: "isl (for_each (small_disturbance_qp e (fe e) [] normal_at press_fn dpress_fn dn_rot_fn)
                     [0..<length (get_xyz (fe e))] s)"
    for normal_at press_fn and dpress_fn :: "point \<Rightarrow> real \<Rightarrow> 'a" and dn_rot_fn s
    by (rule for_each_fails [of 0]) (auto simp add: n first)
  show ?thesis
    unfolding small_disturbance_surface_pressure_residual_def Let_def
    by (intro isl_bind_res_cases isl_bind_res loop)
qed

lemma example_small_disturbance_step:
  assumes "qp < 2"
  shows "small_disturbance_qp e example_fe [0] (nth_checked (get_normals example_fe))
      (\<lambda>p t. 0) (\<lambda>p t. 1) (\<lambda>p t. [0, 0, 1]) qp [0, 0, x, 0, 0, 0 :: real] =
    Inr [0, 0, x + 1, 0, 0, 0]"
proof -
  from assms have "qp = 0 \<or> qp = 1" by auto
  then show ?thesis
    by (elim disjE)
      (simp_all add: small_disturbance_qp_def example_fe_def
        shape_values_def reinit_def small_disturbance_force_value vector_mult_transpose_def
        vec_add_def vec_scale_def nth_checked_def point_coord_def upt6 Let_def)
qed

lemma example_small_disturbance_side:
  assumes "assertions_enabled e \<longrightarrow> \<not> follower_forces e" and "side_fe e 0 = example_fe"
    and "\<not> elem_dim e < 3"
  shows "small_disturbance_surface_pressure_residual_side vec_add request_jacobian (zero_vec 6)
      (zero_mat 6 6) 0 (example_bc SMALL_DISTURBANCE_MOTION) e =
    Inr (request_jacobian \<and> follower_forces e, [0, 0, 2, 0, 0, 0], zero_mat 6 6)"
proof -
  have as: "libmesh_assert (assertions_enabled e) (\<not> follower_forces e) = Inr ()"
    using assms(1) by (simp add: libmesh_assert_def)
  have phi: "get_phi example_fe = [[1, 1]]" "get_xyz example_fe = [(0, 0, 0), (1, 0, 0)]"
    by (simp_all add: example_fe_def)
  show ?thesis
    using as assms(2,3) example_small_disturbance_step [of 0 e 0]
      example_small_disturbance_step [of 1 e 1]
    by (simp add: small_disturbance_surface_pressure_residual_side_def example_bc_def
        get_field_def Let_def phi upt2 zero_vec_def replicate6 vec_add_def)
qed

text \<open>
  Claim C7 on a concrete element of dimension 2 with one shape function and two quadrature
  points, and a \<^verbatim>\<open>SMALL_DISTURBANCE_MOTION\<close> condition with pressure 0, unsteady pressure 1
  and \<open>dnormal = (0, 0, 1)\<close>. The whole-element variant declares \<^verbatim>\<open>phi_vec\<close> without a
  size, so its first write \<^verbatim>\<open>phi_vec(0) = phi[0][0]\<close> is outside the vector: the routine
  fails before any force is computed. The side variant, which declares \<^verbatim>\<open>phi_vec(n_phi)\<close>,
  accumulates the force \<open>0 * dnormal + 1 * normal\<close> over the two points (shown on the same
  data with the identity frame).
\<close>

theorem small_disturbance_element_variant:
  "small_disturbance_surface_pressure_residual vec_add False (zero_vec 6) (zero_mat 6 6)
     (example_bc SMALL_DISTURBANCE_MOTION) (example_element 2 quarter_turn False False) =
     Inl IndexOutOfRange \<and>
   small_disturbance_surface_pressure_residual_side vec_add False (zero_vec 6) (zero_mat 6 6) 0
     (example_bc SMALL_DISTURBANCE_MOTION) (example_element 3 identity3 False False) =
     Inr (False, [0, 0, 2, 0, 0, 0], zero_mat 6 6)"
proof -
  have side: "small_disturbance_surface_pressure_residual_side vec_add False (zero_vec 6)
      (zero_mat 6 6) 0 (example_bc SMALL_DISTURBANCE_MOTION)
      (example_element 3 identity3 False False) = Inr (False, [0, 0, 2, 0, 0, 0], zero_mat 6 6)"
    using example_small_disturbance_side [of "example_element 3 identity3 False False" False]
    by (simp add: example_element_def)
  have elem: "small_disturbance_surface_pressure_residual vec_add False (zero_vec 6)
      (zero_mat 6 6) (example_bc SMALL_DISTURBANCE_MOTION)
      (example_element 2 quarter_turn False False) = Inl IndexOutOfRange"
    by (simp add: small_disturbance_surface_pressure_residual_def example_bc_def get_field_def
        Let_def)
      (simp add: example_element_def example_fe_def upt2 small_disturbance_qp_def
        shape_values_def nth_checked_def assumed_normal_def)
  show ?thesis using side elem by simp
qed

subsection \<open>Follower forces\<close>

text \<open>
  In a build with assertions enabled every surface-pressure routine stops on
  \<^verbatim>\<open>libmesh_assert(!follower_forces)\<close> (or on the dimension assertion before it) when follower
  forces are set, whether or not a Jacobian is requested.
\<close>

lemma follower_forces_asserted:
  assumes "assertions_enabled e" and "follower_forces e"
  shows "surface_pressure_residual_side request_jacobian f jac side bc e = Inl AssertionFailed \<and>
         surface_pressure_residual request_jacobian f jac bc e = Inl AssertionFailed \<and>
         small_disturbance_surface_pressure_residual_side add_to_assembled_vector
           request_jacobian f jac side bc e = Inl AssertionFailed \<and>
         small_disturbance_surface_pressure_residual add_to_assembled_vector
           request_jacobian f jac bc e = Inl AssertionFailed"
  using assms
  by (simp add: surface_pressure_residual_side_def surface_pressure_residual_def
      small_disturbance_surface_pressure_residual_side_def
      small_disturbance_surface_pressure_residual_def libmesh_assert_def)

text \<open>
  Claim C5 on the concrete element, with follower forces set and the Jacobian requested.
  The guard is \<^verbatim>\<open>libmesh_assert(!follower_forces)\<close>, which a build that defines \<^verbatim>\<open>NDEBUG\<close>
  compiles out: there the steady routines (side and whole-element variant) and the
  small-disturbance side routine add the force to \<^verbatim>\<open>f\<close>, leave \<^verbatim>\<open>jac\<close> as it was and return
  \<^verbatim>\<open>request_jacobian && follower_forces\<close>, which is true. With assertions enabled the same
  call stops on the assertion.
\<close>

theorem follower_forces_jacobian_without_assertions:
  "surface_pressure_residual_side True [1, 2, 3, 4, 5, 6] (zero_mat 6 6) 0
     (example_bc SURFACE_PRESSURE)
     ((example_element 2 quarter_turn False True)\<lparr>assertions_enabled := False\<rparr>) =
     Inr (True, [1, 2, 3, 4, 5, 6], zero_mat 6 6) \<and>
   surface_pressure_residual True [1, 2, 3, 4, 5, 6] (zero_mat 6 6)
     (example_bc SURFACE_PRESSURE)
     ((example_element 2 quarter_turn False True)\<lparr>assertions_enabled := False\<rparr>) =
     Inr (True, [1, 2, 3, 4, 5, 6], zero_mat 6 6) \<and>
   small_disturbance_surface_pressure_residual_side vec_add True (zero_vec 6) (zero_mat 6 6) 0
     (example_bc SMALL_DISTURBANCE_MOTION)
     ((example_element 3 identity3 False True)\<lparr>assertions_enabled := False\<rparr>) =
     Inr (True, [0, 0, 2, 0, 0, 0], zero_mat 6 6) \<and>
   surface_pressure_residual_side True [1, 2, 3, 4, 5, 6] (zero_mat 6 6) 0
     (example_bc SURFACE_PRESSURE) (example_element 2 quarter_turn False True) =
     Inl AssertionFailed"
proof -
  let ?e = "(example_element 2 quarter_turn False True)\<lparr>assertions_enabled := False\<rparr>"
  let ?e3 = "(example_element 3 identity3 False True)\<lparr>assertions_enabled := False\<rparr>"
  have steady:
    "surface_pressure_residual_side True [1, 2, 3, 4, 5, 6] (zero_mat 6 6) 0
       (example_bc SURFACE_PRESSURE) ?e = Inr (True, [1, 2, 3, 4, 5, 6], zero_mat 6 6) \<and>
     surface_pressure_residual True [1, 2, 3, 4, 5, 6] (zero_mat 6 6)
       (example_bc SURFACE_PRESSURE) ?e = Inr (True, [1, 2, 3, 4, 5, 6], zero_mat 6 6)"
    using zero_pressure_residual_returns [where e = ?e and f = "[1, 2, 3, 4, 5, 6]"
        and fd = example_fe and bc = "example_bc SURFACE_PRESSURE" and func = "\<lambda>p t. 0"
        and side = 0 and request_jacobian = True and jac = "zero_mat 6 6"]
    by (simp add: example_element_def example_fe_def example_bc_def quadrature_consistent_def)
  have sd: "small_disturbance_surface_pressure_residual_side vec_add True (zero_vec 6)
      (zero_mat 6 6) 0 (example_bc SMALL_DISTURBANCE_MOTION) ?e3 =
      Inr (True, [0, 0, 2, 0, 0, 0], zero_mat 6 6)"
    using example_small_disturbance_side [of ?e3 True]
    by (simp add: example_element_def)
  have debug: "surface_pressure_residual_side True [1, 2, 3, 4, 5, 6] (zero_mat 6 6) 0
      (example_bc SURFACE_PRESSURE) (example_element 2 quarter_turn False True) =
      Inl AssertionFailed"
    using follower_forces_asserted [of "example_element 2 quarter_turn False True"]
    by (simp add: example_element_def)
  show ?thesis using steady sd debug by simp
qed

end
